theory Spec2Isabelle
  imports Complex_Main "HOL-Library.AList"
begin

section \<open>Data model\<close>

text \<open>
  The module coordinates an external page renderer.  A page view is an object of the
  host application; the module holds references to such objects (the array
  \<^verbatim>\<open>PDFViewerApplication.pdfViewer._pages\<close> and the module variable
  \<^verbatim>\<open>renderingView\<close> may alias the same object), so page views live in a store that
  is indexed by references.
\<close>

type_synonym ref = nat

type_synonym promise = nat

text \<open>
  Modelled from the spec: the enumeration \<^verbatim>\<open>RenderingStates\<close> is imported from
  \<^verbatim>\<open>./pdf_rendering_queue\<close>, which is not among the sources.  The module only
  ever compares against \<^verbatim>\<open>PAUSED\<close>.
\<close>

datatype RenderingStates = QUEUED | RUNNING | PAUSED | FINISHED

text \<open>
  The attributes of a page view that the module reads: \<^verbatim>\<open>renderingState\<close>,
  \<^verbatim>\<open>paintTask\<close> (absent, or a task with its \<^verbatim>\<open>promise\<close>) and
  \<^verbatim>\<open>textLayer\<close> (absent, or a text layer whose
  \<^verbatim>\<open>textLayerDiv.childNodes.length\<close> is the given number).
\<close>

record PageView =
  renderingState :: RenderingStates
  paintTask :: "promise option"
  textLayer :: "nat option"

datatype exn = TypeError | Error string

text \<open>The outcome of calling a visit callback: it raises, or it returns a value
  (\<open>None\<close> is \<^verbatim>\<open>undefined\<close>).\<close>

datatype 'r completion = Throw exn | Return "'r option"

text \<open>
  JavaScript numbers, as far as the module computes with them: quotients of integers,
  including the results of dividing by zero.  Finite values are exact rationals: the
  rounding error of the machine's doubles is not modelled.  The module compares such
  quotients with 1, 10 and 100 only, and for operands below \<open>2 ^ 49\<close> the double
  quotient lies on the same side of these bounds as the exact one.
\<close>

datatype number = Fin rat | PosInf | NegInf | NaN

datatype notice = TooLarge | Unsupported

text \<open>Everything the module does to its collaborators, in the order it happens.\<close>

datatype effect =
    RenderView ref
  | ConsoleError exn
  | ConsoleWarn int
  | ConsoleLog int nat nat
  | ConsoleInfo
  | ConsoleErrorContainer nat
  | ConsoleLogAverage number int int
  | SetInterval nat
  | ClearInterval nat
  | Alert notice
  | EventBusOn
  | EventBusOff
  | DispatchEvent "bool option"

record ProgressElement =
  meter_value :: number

record DialogBox =
  progress_element :: "ProgressElement option"
  visible :: bool

text \<open>The text of a page container (\<^verbatim>\<open>container.textContent\<close>), as its code
  units.\<close>

type_synonym textContent = "nat list"

text \<open>
  The world the module runs in.
  \<^item> The host application: \<open>pages\<close> is \<^verbatim>\<open>PDFViewerApplication.pdfViewer._pages\<close>
    (references into \<open>heap\<close>), \<open>keepTextLayers\<close> and \<open>pdfViewer_pagesCount\<close> are
    \<^verbatim>\<open>pdfViewer.keepTextLayers\<close> and \<^verbatim>\<open>pdfViewer.pagesCount\<close>, \<open>pagesCount\<close> is
    \<^verbatim>\<open>PDFViewerApplication.pagesCount\<close>.
  \<^item> The document: \<open>loading_dlgbox\<close> is the element with the identifier
    \<^verbatim>\<open>loading-dlgbox\<close>, if there is one; \<open>page_containers p\<close> is the text of the
    element \<^verbatim>\<open>#viewer .page[data-page-number="p"]\<close>, if there is one.
  \<^item> The module's variables \<^verbatim>\<open>renderingView\<close> and \<^verbatim>\<open>timer\<close>; \<open>next_timer\<close> is
    the handle the next \<^verbatim>\<open>setInterval\<close> returns.
  \<^item> The closure of one cycle: the object \<^verbatim>\<open>rendered\<close>, with its keys in the order
    they were added, and whether \<^verbatim>\<open>onRendered\<close> is subscribed to
    \<^verbatim>\<open>textlayerrendered\<close>.
  \<^item> The effects so far.
\<close>

record world =
  pages :: "ref list"
  heap :: "ref \<Rightarrow> PageView"
  keepTextLayers :: bool
  pdfViewer_pagesCount :: nat
  pagesCount :: nat
  loading_dlgbox :: "DialogBox option"
  page_containers :: "nat \<Rightarrow> textContent option"
  renderingView :: "ref option"
  timer :: "nat option"
  next_timer :: nat
  rendered :: "(int \<times> bool) list"
  subscribed :: bool
  effects :: "effect list"

definition emit :: "effect \<Rightarrow> world \<Rightarrow> world" where
  "emit e w = w\<lparr>effects := effects w @ [e]\<rparr>"

section \<open>Page iterator\<close>

text \<open>
  \<^verbatim>\<open>for (let n = pages.length - 1; n >= 0; --n)\<close> with the
  \<^verbatim>\<open>try\<close>/\<^verbatim>\<open>catch\<close> around the callback.  The callback runs on the
  variables its closure captured (\<open>'l\<close>) and on the world.
\<close>

function forEachView_loop ::
  "(ref \<Rightarrow> 'l \<times> world \<Rightarrow> 'r completion \<times> 'l \<times> world) \<Rightarrow> ref list \<Rightarrow> int \<Rightarrow>
   'l \<times> world \<Rightarrow> 'r option \<times> 'l \<times> world" where
  "forEachView_loop callback ps n s =
     (if n \<ge> 0 then
        (case callback (ps ! nat n) s of
           (Return (Some result), s') \<Rightarrow> (Some result, s')
         | (Return None, s') \<Rightarrow> forEachView_loop callback ps (n - 1) s'
         | (Throw x, (l, w)) \<Rightarrow>
             forEachView_loop callback ps (n - 1) (l, emit (ConsoleError x) w))
      else (None, s))"
  by pat_completeness auto
termination
  by (relation "measure (\<lambda>(callback, ps, n, s). nat (n + 1))") auto

definition forEachView ::
  "(ref \<Rightarrow> 'l \<times> world \<Rightarrow> 'r completion \<times> 'l \<times> world) \<Rightarrow> 'l \<times> world \<Rightarrow>
   'r option \<times> 'l \<times> world" where
  "forEachView callback s =
     (let ps = pages (snd s) in forEachView_loop callback ps (int (length ps) - 1) s)"

section \<open>Promise collector and forced-render driver\<close>

definition getAllRenderPromises :: "world \<Rightarrow> promise list \<times> world" where
  "getAllRenderPromises w =
     (case forEachView
        (\<lambda>view (promises, w).
           if renderingState (heap w view) \<noteq> PAUSED
           then
             (case paintTask (heap w view) of
                Some promise \<Rightarrow> (Return (None :: unit option), promises @ [promise], w)
              | None \<Rightarrow> (Return None, promises, w))
           else (Return None, promises, w))
        ([], w) of
      (result, promises, w') \<Rightarrow> (promises, w'))"

text \<open>
  Modelled from the spec: \<^verbatim>\<open>view.renderingQueue.renderView(view)\<close> belongs to the
  external rendering queue.  The request to render is recorded as an effect; what the
  renderer does with it reaches the module later, as page-rendered events and as changes
  of the views' state.
\<close>

definition renderView :: "ref \<Rightarrow> world \<Rightarrow> world" where
  "renderView view w = emit (RenderView view) w"

text \<open>The test of \<^verbatim>\<open>renderNextPage\<close>:
  \<^verbatim>\<open>!view.textLayer || view.textLayer.textLayerDiv.childNodes.length < 1\<close>.\<close>

definition notRendered :: "PageView \<Rightarrow> bool" where
  "notRendered v = (case textLayer v of None \<Rightarrow> True | Some childNodes \<Rightarrow> childNodes < 1)"

text \<open>\<^verbatim>\<open>renderNextPage\<close> of \<^verbatim>\<open>web/full_text_render.js\<close> (both variants in the
  file are the same): it records the view in \<^verbatim>\<open>renderingView\<close>.\<close>

definition renderNextPage :: "world \<Rightarrow> world" where
  "renderNextPage w =
     (case forEachView
        (\<lambda>view (u :: unit, w).
           if notRendered (heap w view)
           then (Return (Some True), u, renderView view (w\<lparr>renderingView := Some view\<rparr>))
           else (Return None, u, w))
        ((), w) of
      (result, u, w') \<Rightarrow> w')"

text \<open>\<^verbatim>\<open>renderNextPage\<close> of the earliest variant (\<^verbatim>\<open>part_000\<close>), which keeps
  no record of the forced view.\<close>

definition part_000_renderNextPage :: "world \<Rightarrow> world" where
  "part_000_renderNextPage w =
     (case forEachView
        (\<lambda>view (u :: unit, w).
           if notRendered (heap w view)
           then (Return (Some True), u, renderView view w)
           else (Return None, u, w))
        ((), w) of
      (result, u, w') \<Rightarrow> w')"

text \<open>
  The iteration as the specification words it, on the pages listed in the order they
  are visited: a visit that raises is logged and the walk goes on; a visit that returns
  a defined value ends the walk with that value; a visit that returns
  \<^verbatim>\<open>undefined\<close> goes on; at the end of the pages the result is
  \<^verbatim>\<open>undefined\<close>.
\<close>

fun visit_in_order ::
  "(ref \<Rightarrow> 'l \<times> world \<Rightarrow> 'r completion \<times> 'l \<times> world) \<Rightarrow> ref list \<Rightarrow>
   'l \<times> world \<Rightarrow> 'r option \<times> 'l \<times> world" where
  "visit_in_order visit [] s = (None, s)"
| "visit_in_order visit (page # rest) s =
     (case visit page s of
        (Throw x, (l, w)) \<Rightarrow> visit_in_order visit rest (l, emit (ConsoleError x) w)
      | (Return None, s') \<Rightarrow> visit_in_order visit rest s'
      | (Return (Some v), s') \<Rightarrow> (Some v, s'))"

section \<open>Numbers\<close>

text \<open>\<^verbatim>\<open>a / b\<close> for integer operands: dividing by zero gives an infinity, or
  \<^verbatim>\<open>NaN\<close> for \<^verbatim>\<open>0 / 0\<close>.\<close>

definition js_div :: "int \<Rightarrow> int \<Rightarrow> number" where
  "js_div a b =
     (if b = 0 then (if a = 0 then NaN else if 0 < a then PosInf else NegInf)
      else Fin (of_int a / of_int b))"

fun times_100 :: "number \<Rightarrow> number" where
  "times_100 (Fin x) = Fin (x * 100)"
| "times_100 PosInf = PosInf"
| "times_100 NegInf = NegInf"
| "times_100 NaN = NaN"

text \<open>Comparisons: every comparison with \<^verbatim>\<open>NaN\<close> is false.\<close>

fun js_lt :: "number \<Rightarrow> number \<Rightarrow> bool" where
  "js_lt (Fin a) (Fin b) = (a < b)"
| "js_lt (Fin a) PosInf = True"
| "js_lt NegInf (Fin b) = True"
| "js_lt NegInf PosInf = True"
| "js_lt x y = False"

definition js_gt :: "number \<Rightarrow> number \<Rightarrow> bool" where
  "js_gt x y = js_lt y x"

definition js_ge :: "number \<Rightarrow> number \<Rightarrow> bool" where
  "js_ge x y = (x \<noteq> NaN \<and> y \<noteq> NaN \<and> \<not> js_lt x y)"

text \<open>\<^verbatim>\<open>Math.round\<close> rounds to the nearest integer, halves upwards.\<close>

fun Math_round :: "number \<Rightarrow> number" where
  "Math_round (Fin x) = Fin (of_int \<lfloor>x + 1 / 2\<rfloor>)"
| "Math_round x = x"

section \<open>Progress dialog\<close>

text \<open>
  The \<^verbatim>\<open>try\<close> block of \<^verbatim>\<open>updateInitialLoadingProgress\<close>:
  \<^verbatim>\<open>document.getElementById\<close> gives \<^verbatim>\<open>null\<close> when there is no dialog, and then
  \<^verbatim>\<open>dlgbox.querySelector\<close> raises a \<^verbatim>\<open>TypeError\<close>; \<^verbatim>\<open>querySelector\<close> itself
  gives \<^verbatim>\<open>null\<close> when the dialog holds no \<^verbatim>\<open>progress\<close> element, and raises
  nothing.
\<close>

definition lookup_progress :: "world \<Rightarrow> exn + DialogBox \<times> ProgressElement option" where
  "lookup_progress w =
     (case loading_dlgbox w of
        None \<Rightarrow> Inl TypeError
      | Some dlgbox \<Rightarrow> Inr (dlgbox, progress_element dlgbox))"

text \<open>The result is the exception that leaves the function (if any) and the world as
  the function left it.  Writing \<^verbatim>\<open>meter.value\<close> when \<^verbatim>\<open>meter\<close> is
  \<^verbatim>\<open>null\<close> raises a \<^verbatim>\<open>TypeError\<close> outside the \<^verbatim>\<open>try\<close> block.\<close>

definition updateInitialLoadingProgress :: "number \<Rightarrow> world \<Rightarrow> exn option \<times> world" where
  "updateInitialLoadingProgress progress w =
     (case lookup_progress w of
        Inl x \<Rightarrow> (None, w)
      | Inr (dlgbox, meter) \<Rightarrow>
          if js_ge progress (Fin 100)
          then (None, w\<lparr>loading_dlgbox := Some (dlgbox\<lparr>visible := False\<rparr>)\<rparr>)
          else
            (case meter of
               None \<Rightarrow> (Some TypeError, w)
             | Some m \<Rightarrow>
                 (None, w\<lparr>loading_dlgbox :=
                    Some (dlgbox\<lparr>progress_element := Some (m\<lparr>meter_value := Math_round progress\<rparr>),
                                 visible := True\<rparr>)\<rparr>)))"

section \<open>Stall watchdog\<close>

text \<open>Modelled from the spec: \<^verbatim>\<open>setInterval\<close> and \<^verbatim>\<open>clearInterval\<close> are the
  host's; a new interval gets a handle that was not used before.\<close>

definition stopTimer :: "world \<Rightarrow> world" where
  "stopTimer w =
     (case timer w of
        Some t \<Rightarrow> (emit (ClearInterval t) w)\<lparr>timer := None\<rparr>
      | None \<Rightarrow> w)"

definition startTimer :: "world \<Rightarrow> world" where
  "startTimer w =
     (let w1 = stopTimer w; t = next_timer w1
      in (emit (SetInterval t) w1)\<lparr>timer := Some t, next_timer := Suc t\<rparr>)"

definition onResumeRender :: "world \<Rightarrow> world" where
  "onResumeRender w =
     (case renderingView w of
        Some view \<Rightarrow>
          if renderingState (heap w view) = PAUSED then renderView view w else w
      | None \<Rightarrow> w)"

section \<open>Eligibility heuristic\<close>

text \<open>The code units that \<^verbatim>\<open>\s\<close> matches.\<close>

definition isWhiteSpace :: "nat \<Rightarrow> bool" where
  "isWhiteSpace c =
     ((9 \<le> c \<and> c \<le> 13) \<or> c = 32 \<or> c = 160 \<or> c = 5760 \<or> (8192 \<le> c \<and> c \<le> 8202) \<or>
      c = 8232 \<or> c = 8233 \<or> c = 8239 \<or> c = 8287 \<or> c = 12288 \<or> c = 65279)"

text \<open>\<^verbatim>\<open>text.split(/\s+/)\<close>: the pieces between the maximal runs of white space;
  the first argument is the piece being read.\<close>

function split_pieces :: "textContent \<Rightarrow> textContent \<Rightarrow> textContent list" where
  "split_pieces piece [] = [piece]"
| "split_pieces piece (c # cs) =
     (if isWhiteSpace c then piece # split_pieces [] (dropWhile isWhiteSpace cs)
      else split_pieces (piece @ [c]) cs)"
  by pat_completeness auto
termination
  by (relation "measure (\<lambda>(piece, cs). length cs)")
    (auto simp: less_Suc_eq_le length_dropWhile_le)

definition split_whitespace :: "textContent \<Rightarrow> textContent list" where
  "split_whitespace t = split_pieces [] t"

text \<open>The constants of the second variant in \<^verbatim>\<open>web/full_text_render.js\<close>.\<close>

definition MAX_CACHE_SIZE :: nat where
  "MAX_CACHE_SIZE = 100"

definition MAX_AVG_WORD_LENGTH :: rat where
  "MAX_AVG_WORD_LENGTH = 10"

text \<open>The loop \<^verbatim>\<open>for (let p = 1; p <= totalPages; ++p)\<close> of
  \<^verbatim>\<open>calculateAverageWordLength\<close>, on the variables \<^verbatim>\<open>len\<close> and
  \<^verbatim>\<open>words\<close>; a page without a container is reported and skipped.\<close>

function calculateAverageWordLength_loop ::
  "nat \<Rightarrow> nat \<Rightarrow> int \<Rightarrow> int \<Rightarrow> world \<Rightarrow> (int \<times> int) \<times> world" where
  "calculateAverageWordLength_loop totalPages p len words w =
     (if p \<le> totalPages then
        (case page_containers w p of
           None \<Rightarrow>
             calculateAverageWordLength_loop totalPages (p + 1) len words
               (emit (ConsoleErrorContainer p) w)
         | Some t \<Rightarrow>
             (let len1 = len + int (length t);
                  pwords = int (length (split_whitespace t));
                  words1 = words + pwords;
                  len2 = len1 - pwords
              in calculateAverageWordLength_loop totalPages (p + 1) len2 words1 w))
      else ((len, words), w))"
  by pat_completeness auto
termination
  by (relation "measure (\<lambda>(totalPages, p, len, words, w). Suc totalPages - p)") auto

definition calculateAverageWordLength :: "nat \<Rightarrow> world \<Rightarrow> number \<times> world" where
  "calculateAverageWordLength totalPages w =
     (case calculateAverageWordLength_loop totalPages 1 0 0 w of
        ((len, words), w') \<Rightarrow>
          (let avg = js_div len words
           in (avg, emit (ConsoleLogAverage avg len words) w')))"

section \<open>Completion aggregator\<close>

text \<open>
  Modelled from the spec: the signal bus (\<^verbatim>\<open>app.eventBus\<close>) is the host's.  A cycle
  registers one listener, its closure \<^verbatim>\<open>onRendered\<close>; \<open>subscribed\<close> says whether
  the bus holds it.  \<^verbatim>\<open>rendered\<close> is the object the closure captured: its keys are
  the page indices marked so far.
\<close>

definition eventBus_on :: "world \<Rightarrow> world" where
  "eventBus_on w = emit EventBusOn (w\<lparr>subscribed := True\<rparr>)"

definition eventBus_off :: "world \<Rightarrow> world" where
  "eventBus_off w = emit EventBusOff (w\<lparr>subscribed := False\<rparr>)"

text \<open>\<^verbatim>\<open>onRendered\<close> of the earliest variant (\<^verbatim>\<open>part_000\<close>, in \<^verbatim>\<open>run\<close>).
  The argument is \<^verbatim>\<open>ev.pageNumber\<close>.\<close>

definition part_000_onRendered :: "int \<Rightarrow> world \<Rightarrow> exn option \<times> world" where
  "part_000_onRendered pageNumber w0 =
     (let num = pageNumber - 1;
          w1 = (if map_of (rendered w0) num = Some True then emit (ConsoleWarn num) w0
                else w0\<lparr>rendered := AList.update num True (rendered w0)\<rparr>);
          count = pagesCount w1;
          done = length (rendered w1);
          w2 = emit (ConsoleLog num done count) w1
      in case updateInitialLoadingProgress (times_100 (js_div (int done) (int count))) w2 of
           (Some x, w3) \<Rightarrow> (Some x, w3)
         | (None, w3) \<Rightarrow>
             (case getAllRenderPromises w3 of
                (promises, w4) \<Rightarrow>
                  if length promises > 0 then (None, w4)
                  else if done < count then (None, part_000_renderNextPage w4)
                  else
                    (let w5 = emit ConsoleInfo w4;
                         w6 = eventBus_off w5
                     in (None, emit (DispatchEvent None) w6))))"

definition part_000_run :: "world \<Rightarrow> exn option \<times> world" where
  "part_000_run w =
     (if \<not> keepTextLayers w then (None, w)
      else
        (case updateInitialLoadingProgress (Fin 0) (w\<lparr>rendered := []\<rparr>) of
           (Some x, w1) \<Rightarrow> (Some x, w1)
         | (None, w1) \<Rightarrow> (None, eventBus_on w1)))"

text \<open>\<^verbatim>\<open>onRendered\<close> of \<^verbatim>\<open>run\<close>, the first variant in
  \<^verbatim>\<open>web/full_text_render.js\<close>.\<close>

definition run_onRendered :: "int \<Rightarrow> world \<Rightarrow> exn option \<times> world" where
  "run_onRendered pageNumber w0 =
     (let w1 = stopTimer w0;
          num = pageNumber - 1;
          w2 = (if map_of (rendered w1) num = Some True then emit (ConsoleWarn num) w1
                else w1\<lparr>rendered := AList.update num True (rendered w1)\<rparr>);
          count = pagesCount w2;
          done = length (rendered w2);
          w3 = emit (ConsoleLog num done count) w2
      in case updateInitialLoadingProgress (times_100 (js_div (int done) (int count))) w3 of
           (Some x, w4) \<Rightarrow> (Some x, w4)
         | (None, w4) \<Rightarrow>
             (case getAllRenderPromises w4 of
                (promises, w5) \<Rightarrow>
                  if length promises > 0 then (None, w5)
                  else if done < count then (None, renderNextPage (startTimer w5))
                  else
                    (let w6 = emit ConsoleInfo w5;
                         w7 = eventBus_off w6
                     in (None, emit (DispatchEvent None) w7))))"

definition run :: "world \<Rightarrow> exn option \<times> world" where
  "run w =
     (if \<not> keepTextLayers w then (None, w)
      else
        (case updateInitialLoadingProgress (Fin 0) (w\<lparr>rendered := []\<rparr>) of
           (Some x, w1) \<Rightarrow> (Some x, w1)
         | (None, w1) \<Rightarrow> (None, eventBus_on w1)))"

text \<open>The decision of \<^verbatim>\<open>onRendered\<close>:
  \<^verbatim>\<open>const enableHighlights = wordLen > 1 && wordLen < MAX_AVG_WORD_LENGTH\<close>.\<close>

definition enableHighlights :: "number \<Rightarrow> bool" where
  "enableHighlights wordLen = (js_gt wordLen (Fin 1) \<and> js_lt wordLen (Fin MAX_AVG_WORD_LENGTH))"

text \<open>\<^verbatim>\<open>onRendered\<close> of \<^verbatim>\<open>onDocumentLoaded\<close>, the second variant in
  \<^verbatim>\<open>web/full_text_render.js\<close>, with the page-count ceiling and the eligibility
  heuristic.\<close>

definition onDocumentLoaded_onRendered :: "int \<Rightarrow> world \<Rightarrow> exn option \<times> world" where
  "onDocumentLoaded_onRendered pageNumber w0 =
     (let w1 = stopTimer w0;
          num = pageNumber - 1;
          w2 = (if map_of (rendered w1) num = Some True then emit (ConsoleWarn num) w1
                else w1\<lparr>rendered := AList.update num True (rendered w1)\<rparr>);
          count = pagesCount w2;
          done = length (rendered w2);
          w3 = emit (ConsoleLog num done count) w2
      in case updateInitialLoadingProgress (times_100 (js_div (int done) (int count))) w3 of
           (Some x, w4) \<Rightarrow> (Some x, w4)
         | (None, w4) \<Rightarrow>
             (case getAllRenderPromises w4 of
                (promises, w5) \<Rightarrow>
                  if length promises > 0 then (None, w5)
                  else if done < count then (None, renderNextPage (startTimer w5))
                  else
                    (case calculateAverageWordLength count w5 of
                       (wordLen, w6) \<Rightarrow>
                         (let highlights = enableHighlights wordLen;
                              w7 = (if \<not> highlights then emit (Alert Unsupported) w6 else w6);
                              w8 = emit ConsoleInfo w7;
                              w9 = eventBus_off w8
                          in (None, emit (DispatchEvent (Some highlights)) w9)))))"

definition onDocumentLoaded :: "world \<Rightarrow> exn option \<times> world" where
  "onDocumentLoaded w =
     (if \<not> keepTextLayers w then (None, w)
      else if pdfViewer_pagesCount w > MAX_CACHE_SIZE then (None, emit (Alert TooLarge) w)
      else
        (case updateInitialLoadingProgress (Fin 0) (w\<lparr>rendered := []\<rparr>) of
           (Some x, w1) \<Rightarrow> (Some x, w1)
         | (None, w1) \<Rightarrow> (None, eventBus_on w1)))"

section \<open>A cycle as a sequence of inputs\<close>

text \<open>
  Modelled from the spec: the bus and the timer that call into the module are the host's.
  What reaches the module during a cycle: the bus dispatches
  \<^verbatim>\<open>textlayerrendered\<close> with a page number, and calls the listener only while it is
  subscribed (an exception the listener raises ends that call and changes nothing
  else); the interval timer ticks, and calls \<^verbatim>\<open>onResumeRender\<close> only while a
  timer is set; and the host (the renderer, the viewer, the document) changes its own
  state in any way between the calls.
\<close>

datatype input =
    TextLayerRendered int
  | WatchdogTick
  | Host "world \<Rightarrow> world"

definition host_update :: "(world \<Rightarrow> world) \<Rightarrow> world \<Rightarrow> world" where
  "host_update f w =
     w\<lparr>pages := pages (f w), heap := heap (f w), keepTextLayers := keepTextLayers (f w),
       pdfViewer_pagesCount := pdfViewer_pagesCount (f w), pagesCount := pagesCount (f w),
       loading_dlgbox := loading_dlgbox (f w), page_containers := page_containers (f w)\<rparr>"

fun deliver :: "(int \<Rightarrow> world \<Rightarrow> exn option \<times> world) \<Rightarrow> input \<Rightarrow> world \<Rightarrow> world" where
  "deliver onRendered (TextLayerRendered pageNumber) w =
     (if subscribed w then snd (onRendered pageNumber w) else w)"
| "deliver onRendered WatchdogTick w = (if timer w \<noteq> None then onResumeRender w else w)"
| "deliver onRendered (Host f) w = host_update f w"

fun deliver_all :: "(int \<Rightarrow> world \<Rightarrow> exn option \<times> world) \<Rightarrow> input list \<Rightarrow> world \<Rightarrow> world" where
  "deliver_all onRendered [] w = w"
| "deliver_all onRendered (i # is) w = deliver_all onRendered is (deliver onRendered i w)"

section \<open>Notions used to state the properties\<close>

text \<open>The promises one view contributes to \<^verbatim>\<open>getAllRenderPromises\<close>.\<close>

definition inFlight :: "(ref \<Rightarrow> PageView) \<Rightarrow> ref \<Rightarrow> promise list" where
  "inFlight h view =
     (if renderingState (h view) \<noteq> PAUSED
      then (case paintTask (h view) of Some promise \<Rightarrow> [promise] | None \<Rightarrow> [])
      else [])"

text \<open>The text of the containers found for pages \<open>p\<close> to \<open>totalPages\<close>, and the
  pages of that range without a container.\<close>

definition located :: "(nat \<Rightarrow> textContent option) \<Rightarrow> nat \<Rightarrow> nat \<Rightarrow> textContent list" where
  "located containers p totalPages = List.map_filter containers [p..<Suc totalPages]"

definition missing :: "(nat \<Rightarrow> textContent option) \<Rightarrow> nat \<Rightarrow> nat \<Rightarrow> nat list" where
  "missing containers p totalPages = filter (\<lambda>q. containers q = None) [p..<Suc totalPages]"

definition pwords :: "textContent \<Rightarrow> int" where
  "pwords t = int (length (split_whitespace t))"

text \<open>The object \<^verbatim>\<open>rendered\<close> after an event for index \<open>num\<close>.\<close>

definition marked :: "int \<Rightarrow> (int \<times> bool) list \<Rightarrow> (int \<times> bool) list" where
  "marked num rs = (if map_of rs num = Some True then rs else AList.update num True rs)"

definition is_RenderView :: "effect \<Rightarrow> bool" where
  "is_RenderView e = (case e of RenderView view \<Rightarrow> True | _ \<Rightarrow> False)"

definition is_DispatchEvent :: "effect \<Rightarrow> bool" where
  "is_DispatchEvent e = (case e of DispatchEvent detail \<Rightarrow> True | _ \<Rightarrow> False)"

text \<open>The effects from world \<open>w\<close> on, in a later world \<open>w'\<close>.\<close>

definition new_effects :: "world \<Rightarrow> world \<Rightarrow> effect list" where
  "new_effects w w' = drop (length (effects w)) (effects w')"

definition is_SetInterval :: "effect \<Rightarrow> bool" where
  "is_SetInterval e = (case e of SetInterval t \<Rightarrow> True | _ \<Rightarrow> False)"

text \<open>Effects of a terminal transition: no request to render and no timer started (the
  handler starts the timer whenever it goes on to force a page), one removal of the
  subscription, one terminal signal.\<close>

definition terminal_effects :: "effect list \<Rightarrow> bool" where
  "terminal_effects es =
     (filter is_RenderView es = [] \<and> filter is_SetInterval es = [] \<and>
      length (filter (\<lambda>e. e = EventBusOff) es) = 1 \<and>
      length (filter is_DispatchEvent es) = 1)"

text \<open>The page indices (\<^verbatim>\<open>ev.pageNumber - 1\<close>) of the page-rendered events among the
  inputs.\<close>

fun page_indices :: "input list \<Rightarrow> int list" where
  "page_indices [] = []"
| "page_indices (TextLayerRendered pageNumber # is) = (pageNumber - 1) # page_indices is"
| "page_indices (WatchdogTick # is) = page_indices is"
| "page_indices (Host f # is) = page_indices is"

text \<open>The totals that \<^verbatim>\<open>calculateAverageWordLength\<close> accumulates over the containers
  found for pages 1 to \<open>n\<close>.\<close>

definition total_len :: "(nat \<Rightarrow> textContent option) \<Rightarrow> nat \<Rightarrow> int" where
  "total_len containers n =
     sum_list (map (\<lambda>t. int (length t) - pwords t) (located containers 1 n))"

definition total_words :: "(nat \<Rightarrow> textContent option) \<Rightarrow> nat \<Rightarrow> int" where
  "total_words containers n = sum_list (map pwords (located containers 1 n))"

text \<open>The average that \<^verbatim>\<open>calculateAverageWordLength\<close> returns.\<close>

definition average :: "(nat \<Rightarrow> textContent option) \<Rightarrow> nat \<Rightarrow> number" where
  "average containers n = js_div (total_len containers n) (total_words containers n)"

text \<open>The view that \<^verbatim>\<open>renderNextPage\<close> picks: the first one without a rendered
  text layer, from the last page down.\<close>

definition forced :: "world \<Rightarrow> ref option" where
  "forced w = find (\<lambda>view. notRendered (heap w view)) (rev (pages w))"

text \<open>Lines 112 to 117 of \<^verbatim>\<open>onRendered\<close> on their own: the index is marked, or the
  duplicate is reported.\<close>

definition mark_page :: "int \<Rightarrow> world \<Rightarrow> world" where
  "mark_page num w =
     (if map_of (rendered w) num = Some True then emit (ConsoleWarn num) w
      else w\<lparr>rendered := AList.update num True (rendered w)\<rparr>)"

text \<open>The effects of the parts of a terminal transition: of \<^verbatim>\<open>stopTimer\<close>, of
  marking and logging, and of the heuristic with its notice.\<close>

definition clear_effects :: "world \<Rightarrow> effect list" where
  "clear_effects w = (case timer w of Some t \<Rightarrow> [ClearInterval t] | None \<Rightarrow> [])"

definition mark_effects :: "int \<Rightarrow> world \<Rightarrow> effect list" where
  "mark_effects pageNumber w =
     (if map_of (rendered w) (pageNumber - 1) = Some True then [ConsoleWarn (pageNumber - 1)]
      else []) @
     [ConsoleLog (pageNumber - 1) (length (marked (pageNumber - 1) (rendered w))) (pagesCount w)]"

definition heuristic_effects :: "world \<Rightarrow> effect list" where
  "heuristic_effects w =
     map ConsoleErrorContainer (missing (page_containers w) 1 (pagesCount w)) @
     [ConsoleLogAverage (average (page_containers w) (pagesCount w))
        (total_len (page_containers w) (pagesCount w))
        (total_words (page_containers w) (pagesCount w))] @
     (if enableHighlights (average (page_containers w) (pagesCount w))
      then [] else [Alert Unsupported])"

text \<open>What the progress dialog shows: the value of its meter and whether the dialog is
  visible; nothing when the dialog or its meter is missing.\<close>

definition indicator :: "DialogBox option \<Rightarrow> (number \<times> bool) option" where
  "indicator dlgbox =
     (case dlgbox of
        Some d \<Rightarrow>
          (case progress_element d of
             Some m \<Rightarrow> Some (meter_value m, visible d)
           | None \<Rightarrow> None)
      | None \<Rightarrow> None)"

section \<open>Example worlds\<close>

text \<open>
  A document of three pages at the start of a cycle.  View 0 has a text layer without
  child nodes, view 1 has no text layer, view 2 is rendered, paused and holds a paint
  task.  The container of page 1 reads \<^verbatim>\<open>abc de\<close>, that of page 2 is empty, page 3
  has none: the totals are 3 and 3, the average is exactly 1.
\<close>

definition example_world :: world where
  "example_world =
     \<lparr>pages = [0, 1, 2],
      heap = (\<lambda>view.
        \<lparr>renderingState = (if view = 2 then PAUSED else FINISHED),
         paintTask = (if view = 2 then Some 7 else None),
         textLayer = (if view = 1 then None else if view = 0 then Some 0 else Some 3)\<rparr>),
      keepTextLayers = True,
      pdfViewer_pagesCount = 3,
      pagesCount = 3,
      loading_dlgbox = Some \<lparr>progress_element = Some \<lparr>meter_value = Fin 0\<rparr>, visible = False\<rparr>,
      page_containers =
        (\<lambda>p. if p = 1 then Some [97, 98, 99, 32, 100, 101] else if p = 2 then Some [] else None),
      renderingView = None,
      timer = None,
      next_timer = 1,
      rendered = [],
      subscribed = True,
      effects = []\<rparr>"

text \<open>The dialog is there, its \<^verbatim>\<open>progress\<close> element is not.\<close>

definition no_meter_world :: world where
  "no_meter_world =
     example_world\<lparr>loading_dlgbox := Some \<lparr>progress_element = None, visible = False\<rparr>\<rparr>"

text \<open>150 pages, before the document is loaded: in a viewer that keeps its text layers,
  and in one that does not.\<close>

definition large_world :: world where
  "large_world =
     example_world\<lparr>pdfViewer_pagesCount := 150, pagesCount := 150, subscribed := False\<rparr>"

definition disabled_world :: world where
  "disabled_world =
     example_world\<lparr>keepTextLayers := False, pdfViewer_pagesCount := 150, pagesCount := 150,
       subscribed := False\<rparr>"

text \<open>Two of the three pages are done; and the same with no page container at all, with
  one word of eleven letters (the average is exactly 10), and with the text
  \<^verbatim>\<open>abc de\<close> alone (the average is 2).\<close>

definition nearly_done_world :: world where
  "nearly_done_world = example_world\<lparr>rendered := [(0, True), (1, True)]\<rparr>"

definition no_text_world :: world where
  "no_text_world = nearly_done_world\<lparr>page_containers := (\<lambda>p. None)\<rparr>"

definition long_word_world :: world where
  "long_word_world =
     nearly_done_world\<lparr>page_containers :=
       (\<lambda>p. if p = 1 then Some [97, 98, 99, 100, 101, 102, 103, 104, 105, 106, 107] else None)\<rparr>"

definition short_words_world :: world where
  "short_words_world =
     nearly_done_world\<lparr>page_containers :=
       (\<lambda>p. if p = 1 then Some [97, 98, 99, 32, 100, 101] else None)\<rparr>"

text \<open>The renderer pauses every view.\<close>

definition pause_all :: "world \<Rightarrow> world" where
  "pause_all w = w\<lparr>heap := (\<lambda>view. (heap w view)\<lparr>renderingState := PAUSED\<rparr>)\<rparr>"

section \<open>The page iterator and the forced-render driver\<close>


declare calculateAverageWordLength_loop.simps [simp del]

declare forEachView_loop.simps [simp del]

lemma forEachView_loop_take:
  "k \<le> length ps \<Longrightarrow>
   forEachView_loop callback ps (int k - 1) s = visit_in_order callback (rev (take k ps)) s"
proof (induction k arbitrary: s)
  case 0
  then show ?case by (subst forEachView_loop.simps) simp
next
  case (Suc k)
  then have k: "k < length ps" and k': "k \<le> length ps" by simp_all
  have t: "rev (take (Suc k) ps) = ps ! k # rev (take k ps)"
    using k by (simp add: take_Suc_conv_app_nth)
  have n: "int (Suc k) - 1 = int k" by simp
  show ?case
    unfolding n t
    apply (subst forEachView_loop.simps)
    using Suc.IH [OF k']
    apply (simp split: prod.splits completion.splits option.splits)
    done
qed

lemma forEachView_visit_in_order:
  "forEachView callback (l, w) = visit_in_order callback (rev (pages w)) (l, w)"
  using forEachView_loop_take [of "length (pages w)" "pages w" callback "(l, w)"]
  by (simp add: forEachView_def Let_def)

lemma visit_collect:
  "visit_in_order
     (\<lambda>view (promises, w).
        if renderingState (heap w view) \<noteq> PAUSED
        then
          (case paintTask (heap w view) of
             Some promise \<Rightarrow> (Return (None :: unit option), promises @ [promise], w)
           | None \<Rightarrow> (Return None, promises, w))
        else (Return None, promises, w))
     ps (acc, w) = (None, acc @ concat (map (inFlight (heap w)) ps), w)"
  by (induction ps arbitrary: acc) (auto simp: inFlight_def split: option.splits)

lemma getAllRenderPromises_eq:
  "getAllRenderPromises w = (concat (map (inFlight (heap w)) (rev (pages w))), w)"
  by (simp add: getAllRenderPromises_def forEachView_visit_in_order visit_collect)

lemma visit_force:
  "visit_in_order
     (\<lambda>view (u :: unit, w).
        if notRendered (heap w view)
        then (Return (Some True), u, renderView view (w\<lparr>renderingView := Some view\<rparr>))
        else (Return None, u, w))
     ps ((), w) =
   (case find (\<lambda>view. notRendered (heap w view)) ps of
      None \<Rightarrow> (None, (), w)
    | Some view \<Rightarrow> (Some True, (), renderView view (w\<lparr>renderingView := Some view\<rparr>)))"
  by (induction ps) auto

lemma visit_force_part_000:
  "visit_in_order
     (\<lambda>view (u :: unit, w).
        if notRendered (heap w view)
        then (Return (Some True), u, renderView view w)
        else (Return None, u, w))
     ps ((), w) =
   (case find (\<lambda>view. notRendered (heap w view)) ps of
      None \<Rightarrow> (None, (), w)
    | Some view \<Rightarrow> (Some True, (), renderView view w))"
  by (induction ps) auto

lemma renderNextPage_eq:
  "renderNextPage w =
     (case find (\<lambda>view. notRendered (heap w view)) (rev (pages w)) of
        None \<Rightarrow> w
      | Some view \<Rightarrow> renderView view (w\<lparr>renderingView := Some view\<rparr>))"
  by (simp add: renderNextPage_def forEachView_visit_in_order visit_force split: option.splits)

lemma part_000_renderNextPage_eq:
  "part_000_renderNextPage w =
     (case find (\<lambda>view. notRendered (heap w view)) (rev (pages w)) of
        None \<Rightarrow> w
      | Some view \<Rightarrow> renderView view w)"
  by (simp add: part_000_renderNextPage_def forEachView_visit_in_order visit_force_part_000
      split: option.splits)

lemma split_pieces_nonempty: "1 \<le> length (split_pieces piece cs)"
  by (induction piece cs rule: split_pieces.induct) auto

lemma pwords_pos: "1 \<le> pwords t"
  using split_pieces_nonempty [of "[]" t] by (simp add: pwords_def split_whitespace_def)

lemma located_step:
  "p \<le> n \<Longrightarrow> located c p n = (case c p of None \<Rightarrow> located c (Suc p) n | Some t \<Rightarrow> t # located c (Suc p) n)"
  by (simp add: located_def upt_conv_Cons [of p "Suc n"] split: option.splits del: upt_Suc)

lemma missing_step:
  "p \<le> n \<Longrightarrow> missing c p n = (case c p of None \<Rightarrow> p # missing c (Suc p) n | Some t \<Rightarrow> missing c (Suc p) n)"
  by (simp add: missing_def upt_conv_Cons [of p "Suc n"] split: option.splits del: upt_Suc)

lemma located_end: "n < p \<Longrightarrow> located c p n = []"
  by (simp add: located_def)

lemma missing_end: "n < p \<Longrightarrow> missing c p n = []"
  by (simp add: missing_def)

lemma loop_eq:
  "calculateAverageWordLength_loop n p len words w =
     ((len + sum_list (map (\<lambda>t. int (length t) - pwords t) (located (page_containers w) p n)),
       words + sum_list (map pwords (located (page_containers w) p n))),
      w\<lparr>effects := effects w @ map ConsoleErrorContainer (missing (page_containers w) p n)\<rparr>)"
proof (induction n p len words w rule: calculateAverageWordLength_loop.induct)
  case (1 n p len words w)
  show ?case
  proof (cases "p \<le> n")
    case False
    then show ?thesis
      by (subst calculateAverageWordLength_loop.simps) (simp add: located_end missing_end)
  next
    case True
    show ?thesis
    proof (cases "page_containers w p")
      case None
      from "1.IH"(1) [OF True None] True None show ?thesis
        by (subst calculateAverageWordLength_loop.simps)
          (simp add: located_step missing_step emit_def)
    next
      case (Some t)
      from "1.IH"(2) [OF True Some refl refl refl refl] True Some show ?thesis
        by (subst calculateAverageWordLength_loop.simps)
          (simp add: located_step missing_step Let_def pwords_def [abs_def])
    qed
  qed
qed

lemma words_zero_iff:
  "sum_list (map pwords ts) = 0 \<longleftrightarrow> ts = []"
proof
  assume z: "sum_list (map pwords ts) = 0"
  show "ts = []"
  proof (cases ts)
    case Nil then show ?thesis .
  next
    case (Cons t rest)
    have "0 \<le> sum_list (map pwords rest)"
      by (rule sum_list_nonneg) (use pwords_pos in \<open>auto intro: order_trans [of 0 1]\<close>)
    with z Cons pwords_pos [of t] show ?thesis by simp
  qed
qed simp

lemma located_empty_iff:
  "located c p n = [] \<longleftrightarrow> (\<forall>q. p \<le> q \<and> q \<le> n \<longrightarrow> c q = None)"
  by (auto simp add: located_def List.map_filter_def filter_empty_conv simp del: upt_Suc)


lemma update_nonempty: "AList.update k v al \<noteq> []"
  by (cases al) auto

lemma marked_nonempty: "0 < length (marked num rs)"
  by (cases rs) (auto simp: marked_def update_nonempty)

lemma progress_done:
  "0 < d \<Longrightarrow> c \<le> d \<Longrightarrow> js_ge (times_100 (js_div (int d) (int c))) (Fin 100)"
  by (auto simp: js_div_def js_ge_def not_less pos_le_divide_eq)

lemma progress_not_done:
  "d < c \<Longrightarrow> \<not> js_ge (times_100 (js_div (int d) (int c))) (Fin 100)"
  by (auto simp: js_div_def js_ge_def pos_divide_less_eq)

section \<open>What each operation changes\<close>


lemma emit_fields [simp]:
  "pages (emit e w) = pages w"
  "heap (emit e w) = heap w"
  "keepTextLayers (emit e w) = keepTextLayers w"
  "pdfViewer_pagesCount (emit e w) = pdfViewer_pagesCount w"
  "pagesCount (emit e w) = pagesCount w"
  "loading_dlgbox (emit e w) = loading_dlgbox w"
  "page_containers (emit e w) = page_containers w"
  "renderingView (emit e w) = renderingView w"
  "timer (emit e w) = timer w"
  "next_timer (emit e w) = next_timer w"
  "rendered (emit e w) = rendered w"
  "subscribed (emit e w) = subscribed w"
  "effects (emit e w) = effects w @ [e]"
  by (simp_all add: emit_def)

lemma stopTimer_fields [simp]:
  "pages (stopTimer w) = pages w"
  "heap (stopTimer w) = heap w"
  "keepTextLayers (stopTimer w) = keepTextLayers w"
  "pdfViewer_pagesCount (stopTimer w) = pdfViewer_pagesCount w"
  "pagesCount (stopTimer w) = pagesCount w"
  "loading_dlgbox (stopTimer w) = loading_dlgbox w"
  "page_containers (stopTimer w) = page_containers w"
  "renderingView (stopTimer w) = renderingView w"
  "timer (stopTimer w) = None"
  "next_timer (stopTimer w) = next_timer w"
  "rendered (stopTimer w) = rendered w"
  "subscribed (stopTimer w) = subscribed w"
  "effects (stopTimer w) =
     effects w @ (case timer w of Some t \<Rightarrow> [ClearInterval t] | None \<Rightarrow> [])"
  by (simp_all add: stopTimer_def split: option.splits)

lemma startTimer_fields [simp]:
  "pages (startTimer w) = pages w"
  "heap (startTimer w) = heap w"
  "keepTextLayers (startTimer w) = keepTextLayers w"
  "pdfViewer_pagesCount (startTimer w) = pdfViewer_pagesCount w"
  "pagesCount (startTimer w) = pagesCount w"
  "loading_dlgbox (startTimer w) = loading_dlgbox w"
  "page_containers (startTimer w) = page_containers w"
  "renderingView (startTimer w) = renderingView w"
  "timer (startTimer w) = Some (next_timer w)"
  "next_timer (startTimer w) = Suc (next_timer w)"
  "rendered (startTimer w) = rendered w"
  "subscribed (startTimer w) = subscribed w"
  "effects (startTimer w) =
     effects w @ (case timer w of Some t \<Rightarrow> [ClearInterval t] | None \<Rightarrow> []) @
     [SetInterval (next_timer w)]"
  by (simp_all add: startTimer_def Let_def)

lemma eventBus_off_fields [simp]:
  "pages (eventBus_off w) = pages w"
  "heap (eventBus_off w) = heap w"
  "keepTextLayers (eventBus_off w) = keepTextLayers w"
  "pdfViewer_pagesCount (eventBus_off w) = pdfViewer_pagesCount w"
  "pagesCount (eventBus_off w) = pagesCount w"
  "loading_dlgbox (eventBus_off w) = loading_dlgbox w"
  "page_containers (eventBus_off w) = page_containers w"
  "renderingView (eventBus_off w) = renderingView w"
  "timer (eventBus_off w) = timer w"
  "next_timer (eventBus_off w) = next_timer w"
  "rendered (eventBus_off w) = rendered w"
  "subscribed (eventBus_off w) = False"
  "effects (eventBus_off w) = effects w @ [EventBusOff]"
  by (simp_all add: eventBus_off_def)

lemma eventBus_on_fields [simp]:
  "pages (eventBus_on w) = pages w"
  "heap (eventBus_on w) = heap w"
  "keepTextLayers (eventBus_on w) = keepTextLayers w"
  "pdfViewer_pagesCount (eventBus_on w) = pdfViewer_pagesCount w"
  "pagesCount (eventBus_on w) = pagesCount w"
  "loading_dlgbox (eventBus_on w) = loading_dlgbox w"
  "page_containers (eventBus_on w) = page_containers w"
  "renderingView (eventBus_on w) = renderingView w"
  "timer (eventBus_on w) = timer w"
  "next_timer (eventBus_on w) = next_timer w"
  "rendered (eventBus_on w) = rendered w"
  "subscribed (eventBus_on w) = True"
  "effects (eventBus_on w) = effects w @ [EventBusOn]"
  by (simp_all add: eventBus_on_def)


lemma renderNextPage_fields [simp]:
  "pages (renderNextPage w) = pages w"
  "heap (renderNextPage w) = heap w"
  "keepTextLayers (renderNextPage w) = keepTextLayers w"
  "pdfViewer_pagesCount (renderNextPage w) = pdfViewer_pagesCount w"
  "pagesCount (renderNextPage w) = pagesCount w"
  "loading_dlgbox (renderNextPage w) = loading_dlgbox w"
  "page_containers (renderNextPage w) = page_containers w"
  "renderingView (renderNextPage w) =
     (case forced w of None \<Rightarrow> renderingView w | Some view \<Rightarrow> Some view)"
  "timer (renderNextPage w) = timer w"
  "next_timer (renderNextPage w) = next_timer w"
  "rendered (renderNextPage w) = rendered w"
  "subscribed (renderNextPage w) = subscribed w"
  "effects (renderNextPage w) =
     effects w @ (case forced w of None \<Rightarrow> [] | Some view \<Rightarrow> [RenderView view])"
  by (simp_all add: renderNextPage_eq renderView_def emit_def forced_def split: option.splits)

lemma part_000_renderNextPage_fields [simp]:
  "pages (part_000_renderNextPage w) = pages w"
  "heap (part_000_renderNextPage w) = heap w"
  "keepTextLayers (part_000_renderNextPage w) = keepTextLayers w"
  "pdfViewer_pagesCount (part_000_renderNextPage w) = pdfViewer_pagesCount w"
  "pagesCount (part_000_renderNextPage w) = pagesCount w"
  "loading_dlgbox (part_000_renderNextPage w) = loading_dlgbox w"
  "page_containers (part_000_renderNextPage w) = page_containers w"
  "renderingView (part_000_renderNextPage w) = renderingView w"
  "timer (part_000_renderNextPage w) = timer w"
  "next_timer (part_000_renderNextPage w) = next_timer w"
  "rendered (part_000_renderNextPage w) = rendered w"
  "subscribed (part_000_renderNextPage w) = subscribed w"
  "effects (part_000_renderNextPage w) =
     effects w @ (case forced w of None \<Rightarrow> [] | Some view \<Rightarrow> [RenderView view])"
  by (simp_all add: part_000_renderNextPage_eq renderView_def emit_def forced_def
      split: option.splits)

lemma updateInitialLoadingProgress_fields [simp]:
  "pages (snd (updateInitialLoadingProgress x w)) = pages w"
  "heap (snd (updateInitialLoadingProgress x w)) = heap w"
  "keepTextLayers (snd (updateInitialLoadingProgress x w)) = keepTextLayers w"
  "pdfViewer_pagesCount (snd (updateInitialLoadingProgress x w)) = pdfViewer_pagesCount w"
  "pagesCount (snd (updateInitialLoadingProgress x w)) = pagesCount w"
  "page_containers (snd (updateInitialLoadingProgress x w)) = page_containers w"
  "renderingView (snd (updateInitialLoadingProgress x w)) = renderingView w"
  "timer (snd (updateInitialLoadingProgress x w)) = timer w"
  "next_timer (snd (updateInitialLoadingProgress x w)) = next_timer w"
  "rendered (snd (updateInitialLoadingProgress x w)) = rendered w"
  "subscribed (snd (updateInitialLoadingProgress x w)) = subscribed w"
  "effects (snd (updateInitialLoadingProgress x w)) = effects w"
  by (simp_all add: updateInitialLoadingProgress_def lookup_progress_def
      split: option.splits)

lemma updateInitialLoadingProgress_done:
  "js_ge x (Fin 100) \<Longrightarrow> fst (updateInitialLoadingProgress x w) = None"
  by (simp add: updateInitialLoadingProgress_def lookup_progress_def split: option.splits)

lemma calculateAverageWordLength_eq:
  "calculateAverageWordLength n w =
     (average (page_containers w) n,
      w\<lparr>effects := effects w @ map ConsoleErrorContainer (missing (page_containers w) 1 n) @
         [ConsoleLogAverage (average (page_containers w) n) (total_len (page_containers w) n)
            (total_words (page_containers w) n)]\<rparr>)"
  by (simp add: calculateAverageWordLength_def loop_eq Let_def emit_def total_len_def
      total_words_def average_def)

lemma calculateAverageWordLength_fields [simp]:
  "pages (snd (calculateAverageWordLength n w)) = pages w"
  "heap (snd (calculateAverageWordLength n w)) = heap w"
  "keepTextLayers (snd (calculateAverageWordLength n w)) = keepTextLayers w"
  "pdfViewer_pagesCount (snd (calculateAverageWordLength n w)) = pdfViewer_pagesCount w"
  "pagesCount (snd (calculateAverageWordLength n w)) = pagesCount w"
  "loading_dlgbox (snd (calculateAverageWordLength n w)) = loading_dlgbox w"
  "page_containers (snd (calculateAverageWordLength n w)) = page_containers w"
  "renderingView (snd (calculateAverageWordLength n w)) = renderingView w"
  "timer (snd (calculateAverageWordLength n w)) = timer w"
  "next_timer (snd (calculateAverageWordLength n w)) = next_timer w"
  "rendered (snd (calculateAverageWordLength n w)) = rendered w"
  "subscribed (snd (calculateAverageWordLength n w)) = subscribed w"
  "effects (snd (calculateAverageWordLength n w)) =
     effects w @ map ConsoleErrorContainer (missing (page_containers w) 1 n) @
       [ConsoleLogAverage (average (page_containers w) n) (total_len (page_containers w) n)
          (total_words (page_containers w) n)]"
  "fst (calculateAverageWordLength n w) = average (page_containers w) n"
  by (simp_all add: calculateAverageWordLength_eq)

lemma getAllRenderPromises_fields [simp]:
  "snd (getAllRenderPromises w) = w"
  "fst (getAllRenderPromises w) = concat (map (inFlight (heap w)) (rev (pages w)))"
  by (simp_all add: getAllRenderPromises_eq)

section \<open>The page-rendered handlers\<close>

lemma mark_page_fields [simp]:
  "pages (mark_page num w) = pages w"
  "heap (mark_page num w) = heap w"
  "keepTextLayers (mark_page num w) = keepTextLayers w"
  "pdfViewer_pagesCount (mark_page num w) = pdfViewer_pagesCount w"
  "pagesCount (mark_page num w) = pagesCount w"
  "loading_dlgbox (mark_page num w) = loading_dlgbox w"
  "page_containers (mark_page num w) = page_containers w"
  "renderingView (mark_page num w) = renderingView w"
  "timer (mark_page num w) = timer w"
  "next_timer (mark_page num w) = next_timer w"
  "rendered (mark_page num w) = marked num (rendered w)"
  "subscribed (mark_page num w) = subscribed w"
  "effects (mark_page num w) =
     effects w @ (if map_of (rendered w) num = Some True then [ConsoleWarn num] else [])"
  by (simp_all add: mark_page_def marked_def)

lemma part_000_onRendered_unfold:
  "part_000_onRendered pageNumber w0 =
     (let num = pageNumber - 1;
          w1 = mark_page num w0;
          count = pagesCount w1;
          done = length (rendered w1);
          w2 = emit (ConsoleLog num done count) w1
      in case updateInitialLoadingProgress (times_100 (js_div (int done) (int count))) w2 of
           (Some x, w3) \<Rightarrow> (Some x, w3)
         | (None, w3) \<Rightarrow>
             (case getAllRenderPromises w3 of
                (promises, w4) \<Rightarrow>
                  if length promises > 0 then (None, w4)
                  else if done < count then (None, part_000_renderNextPage w4)
                  else
                    (let w5 = emit ConsoleInfo w4;
                         w6 = eventBus_off w5
                     in (None, emit (DispatchEvent None) w6))))"
  unfolding part_000_onRendered_def mark_page_def by (rule refl)

lemma run_onRendered_unfold:
  "run_onRendered pageNumber w0 =
     (let w1 = stopTimer w0;
          num = pageNumber - 1;
          w2 = mark_page num w1;
          count = pagesCount w2;
          done = length (rendered w2);
          w3 = emit (ConsoleLog num done count) w2
      in case updateInitialLoadingProgress (times_100 (js_div (int done) (int count))) w3 of
           (Some x, w4) \<Rightarrow> (Some x, w4)
         | (None, w4) \<Rightarrow>
             (case getAllRenderPromises w4 of
                (promises, w5) \<Rightarrow>
                  if length promises > 0 then (None, w5)
                  else if done < count then (None, renderNextPage (startTimer w5))
                  else
                    (let w6 = emit ConsoleInfo w5;
                         w7 = eventBus_off w6
                     in (None, emit (DispatchEvent None) w7))))"
  unfolding run_onRendered_def mark_page_def by (rule refl)

lemma onDocumentLoaded_onRendered_unfold:
  "onDocumentLoaded_onRendered pageNumber w0 =
     (let w1 = stopTimer w0;
          num = pageNumber - 1;
          w2 = mark_page num w1;
          count = pagesCount w2;
          done = length (rendered w2);
          w3 = emit (ConsoleLog num done count) w2
      in case updateInitialLoadingProgress (times_100 (js_div (int done) (int count))) w3 of
           (Some x, w4) \<Rightarrow> (Some x, w4)
         | (None, w4) \<Rightarrow>
             (case getAllRenderPromises w4 of
                (promises, w5) \<Rightarrow>
                  if length promises > 0 then (None, w5)
                  else if done < count then (None, renderNextPage (startTimer w5))
                  else
                    (case calculateAverageWordLength count w5 of
                       (wordLen, w6) \<Rightarrow>
                         (let highlights = enableHighlights wordLen;
                              w7 = (if \<not> highlights then emit (Alert Unsupported) w6 else w6);
                              w8 = emit ConsoleInfo w7;
                              w9 = eventBus_off w8
                          in (None, emit (DispatchEvent (Some highlights)) w9)))))"
  unfolding onDocumentLoaded_onRendered_def mark_page_def by (rule refl)

lemmas handler_unfolds =
  part_000_onRendered_unfold run_onRendered_unfold onDocumentLoaded_onRendered_unfold

lemma handlers_rendered:
  "rendered (snd (part_000_onRendered pn w)) = marked (pn - 1) (rendered w)"
  "rendered (snd (run_onRendered pn w)) = marked (pn - 1) (rendered w)"
  "rendered (snd (onDocumentLoaded_onRendered pn w)) = marked (pn - 1) (rendered w)"
  by (simp_all add: handler_unfolds Let_def case_prod_beta split: option.splits)

lemma duplicate_warns:
  assumes "map_of (rendered w) (pn - 1) = Some True"
  shows "ConsoleWarn (pn - 1) \<in> set (new_effects w (snd (part_000_onRendered pn w)))"
    and "ConsoleWarn (pn - 1) \<in> set (new_effects w (snd (run_onRendered pn w)))"
    and "ConsoleWarn (pn - 1) \<in> set (new_effects w (snd (onDocumentLoaded_onRendered pn w)))"
  using assms
  by (simp_all add: handler_unfolds Let_def case_prod_beta new_effects_def split: option.splits)

lemma done_progress:
  assumes "pagesCount w \<le> length (marked num (rendered w))"
  shows "js_ge (times_100 (js_div (int (length (marked num (rendered w)))) (int (pagesCount w)))) (Fin 100)"
  using progress_done [OF marked_nonempty assms] .

lemma part_000_terminal:
  assumes d: "pagesCount w \<le> length (marked (pn - 1) (rendered w))"
    and idle: "fst (getAllRenderPromises w) = []"
  shows "fst (part_000_onRendered pn w) = None"
    and "subscribed (snd (part_000_onRendered pn w)) = False"
    and "timer (snd (part_000_onRendered pn w)) = timer w"
    and "effects (snd (part_000_onRendered pn w)) =
           effects w @ mark_effects pn w @ [ConsoleInfo, EventBusOff, DispatchEvent None]"
  using d idle updateInitialLoadingProgress_done [OF done_progress [OF d]]
  by (simp_all add: part_000_onRendered_unfold Let_def case_prod_beta mark_effects_def
      split: option.splits)

lemma run_terminal:
  assumes d: "pagesCount w \<le> length (marked (pn - 1) (rendered w))"
    and idle: "fst (getAllRenderPromises w) = []"
  shows "fst (run_onRendered pn w) = None"
    and "subscribed (snd (run_onRendered pn w)) = False"
    and "timer (snd (run_onRendered pn w)) = None"
    and "effects (snd (run_onRendered pn w)) =
           effects w @ clear_effects w @ mark_effects pn w @
           [ConsoleInfo, EventBusOff, DispatchEvent None]"
  using d idle updateInitialLoadingProgress_done [OF done_progress [OF d]]
  by (simp_all add: run_onRendered_unfold Let_def case_prod_beta mark_effects_def
      clear_effects_def split: option.splits)

lemma onDocumentLoaded_terminal:
  assumes d: "pagesCount w \<le> length (marked (pn - 1) (rendered w))"
    and idle: "fst (getAllRenderPromises w) = []"
  shows "fst (onDocumentLoaded_onRendered pn w) = None"
    and "subscribed (snd (onDocumentLoaded_onRendered pn w)) = False"
    and "timer (snd (onDocumentLoaded_onRendered pn w)) = None"
    and "effects (snd (onDocumentLoaded_onRendered pn w)) =
           effects w @ clear_effects w @ mark_effects pn w @ heuristic_effects w @
           [ConsoleInfo, EventBusOff,
            DispatchEvent (Some (enableHighlights (average (page_containers w) (pagesCount w))))]"
  using d idle updateInitialLoadingProgress_done [OF done_progress [OF d]]
  by (simp_all add: onDocumentLoaded_onRendered_unfold Let_def case_prod_beta
      mark_effects_def clear_effects_def heuristic_effects_def split: option.splits)

section \<open>A cycle after its terminal transition\<close>

lemma onResumeRender_fields [simp]:
  "pages (onResumeRender w) = pages w"
  "heap (onResumeRender w) = heap w"
  "keepTextLayers (onResumeRender w) = keepTextLayers w"
  "pdfViewer_pagesCount (onResumeRender w) = pdfViewer_pagesCount w"
  "pagesCount (onResumeRender w) = pagesCount w"
  "loading_dlgbox (onResumeRender w) = loading_dlgbox w"
  "page_containers (onResumeRender w) = page_containers w"
  "renderingView (onResumeRender w) = renderingView w"
  "timer (onResumeRender w) = timer w"
  "next_timer (onResumeRender w) = next_timer w"
  "rendered (onResumeRender w) = rendered w"
  "subscribed (onResumeRender w) = subscribed w"
  by (simp_all add: onResumeRender_def renderView_def split: option.splits)

lemma host_update_fields [simp]:
  "renderingView (host_update f w) = renderingView w"
  "timer (host_update f w) = timer w"
  "next_timer (host_update f w) = next_timer w"
  "rendered (host_update f w) = rendered w"
  "subscribed (host_update f w) = subscribed w"
  "effects (host_update f w) = effects w"
  by (simp_all add: host_update_def)

lemma deliver_idle:
  assumes "\<not> subscribed w" and "timer w = None"
  shows "subscribed (deliver h i w) = False \<and> timer (deliver h i w) = None \<and>
         effects (deliver h i w) = effects w"
  using assms by (cases i) simp_all

lemma deliver_all_idle:
  "\<not> subscribed w \<Longrightarrow> timer w = None \<Longrightarrow> effects (deliver_all h ins w) = effects w"
proof (induction ins arbitrary: w)
  case Nil
  show ?case by simp
next
  case (Cons i ins)
  from deliver_idle [OF Cons.prems, of h i]
  have "\<not> subscribed (deliver h i w)" and "timer (deliver h i w) = None"
    and e: "effects (deliver h i w) = effects w" by simp_all
  with Cons.IH [of "deliver h i w"] show ?case by simp
qed

lemma terminal_then_idle:
  assumes sub: "subscribed w"
    and e: "effects (snd (h pn w)) = effects w @ es"
    and s: "subscribed (snd (h pn w)) = False"
    and t: "timer (snd (h pn w)) = None"
  shows "new_effects w (deliver_all h (TextLayerRendered pn # ins) w) = es"
proof -
  have "effects (deliver_all h ins (snd (h pn w))) = effects w @ es"
    using deliver_all_idle [of "snd (h pn w)" h ins] s t e by simp
  then show ?thesis using sub by (simp add: new_effects_def)
qed

lemma terminal_mark_effects [simp]:
  "filter is_RenderView (mark_effects pn w) = []"
  "filter (\<lambda>e. e = EventBusOff) (mark_effects pn w) = []"
  "filter is_DispatchEvent (mark_effects pn w) = []"
  "filter is_SetInterval (mark_effects pn w) = []"
  by (simp_all add: mark_effects_def is_RenderView_def is_DispatchEvent_def is_SetInterval_def)

lemma terminal_clear_effects [simp]:
  "filter is_RenderView (clear_effects w) = []"
  "filter (\<lambda>e. e = EventBusOff) (clear_effects w) = []"
  "filter is_DispatchEvent (clear_effects w) = []"
  "filter is_SetInterval (clear_effects w) = []"
  by (simp_all add: clear_effects_def is_RenderView_def is_DispatchEvent_def is_SetInterval_def
      split: option.splits)

lemma filter_map_ConsoleErrorContainer [simp]:
  "filter is_RenderView (map ConsoleErrorContainer ps) = []"
  "filter (\<lambda>e. e = EventBusOff) (map ConsoleErrorContainer ps) = []"
  "filter is_DispatchEvent (map ConsoleErrorContainer ps) = []"
  "filter is_SetInterval (map ConsoleErrorContainer ps) = []"
  by (induction ps) (simp_all add: is_RenderView_def is_DispatchEvent_def is_SetInterval_def)

lemma terminal_heuristic_effects [simp]:
  "filter is_RenderView (heuristic_effects w) = []"
  "filter (\<lambda>e. e = EventBusOff) (heuristic_effects w) = []"
  "filter is_DispatchEvent (heuristic_effects w) = []"
  "filter is_SetInterval (heuristic_effects w) = []"
  by (simp_all add: heuristic_effects_def is_RenderView_def is_DispatchEvent_def
      is_SetInterval_def)

section \<open>Counting the pages that are done\<close>

lemma marked_keys: "fst ` set (marked num rs) = insert num (fst ` set rs)"
proof (cases "map_of rs num = Some True")
  case True
  then have "(num, True) \<in> set rs" by (rule map_of_SomeD)
  then have "num \<in> fst ` set rs" by force
  with True show ?thesis by (auto simp: marked_def)
next
  case False
  then show ?thesis by (simp add: marked_def dom_update)
qed

lemma marked_distinct: "distinct (map fst rs) \<Longrightarrow> distinct (map fst (marked num rs))"
  by (simp add: marked_def distinct_update)

lemma marked_duplicate: "map_of rs num = Some True \<Longrightarrow> marked num rs = rs"
  by (simp add: marked_def)

lemma deliver_rendered_step:
  assumes h: "\<And>pn w. rendered (snd (h pn w)) = marked (pn - 1) (rendered w)"
    and dist: "distinct (map fst (rendered w))"
  shows "distinct (map fst (rendered (deliver h i w)))"
    and "fst ` set (rendered (deliver h i w)) \<subseteq> fst ` set (rendered w) \<union> set (page_indices [i])"
  using dist by (cases i; simp add: h marked_keys marked_distinct; blast)+

lemma page_indices_Cons:
  "set (page_indices (i # ins)) = set (page_indices [i]) \<union> set (page_indices ins)"
  by (cases i) simp_all

lemma deliver_rendered:
  assumes h: "\<And>pn w. rendered (snd (h pn w)) = marked (pn - 1) (rendered w)"
    and dist: "distinct (map fst (rendered w))"
  shows "distinct (map fst (rendered (deliver_all h ins w))) \<and>
         fst ` set (rendered (deliver_all h ins w)) \<subseteq> fst ` set (rendered w) \<union> set (page_indices ins)"
  using dist
proof (induction ins arbitrary: w)
  case Nil
  then show ?case by simp
next
  case (Cons i ins)
  note step = deliver_rendered_step [of h w i, OF h Cons.prems]
  from Cons.IH [OF step(1)] step(2) show ?case
    unfolding page_indices_Cons [of i ins] deliver_all.simps by blast
qed

lemma done_count_bound:
  assumes h: "\<And>pn w. rendered (snd (h pn w)) = marked (pn - 1) (rendered w)"
    and fresh: "rendered w = []"
  shows "length (rendered (deliver_all h ins w)) \<le> card (set (page_indices ins))"
proof -
  let ?rs = "rendered (deliver_all h ins w)"
  from deliver_rendered [of h w ins, OF h] fresh
  have dist: "distinct (map fst ?rs)" and sub: "fst ` set ?rs \<subseteq> set (page_indices ins)"
    by simp_all
  have "length ?rs = length (map fst ?rs)" by simp
  also have "\<dots> = card (set (map fst ?rs))" using dist by (rule distinct_card [symmetric])
  also have "\<dots> \<le> card (set (page_indices ins))"
    using sub by (auto intro!: card_mono)
  finally show ?thesis .
qed

lemma onDocumentLoaded_too_large:
  "keepTextLayers w \<Longrightarrow> MAX_CACHE_SIZE < pdfViewer_pagesCount w \<Longrightarrow>
   onDocumentLoaded w = (None, emit (Alert TooLarge) w)"
  by (simp add: onDocumentLoaded_def)

section \<open>The eligibility heuristic\<close>

lemma total_words_nonneg: "0 \<le> total_words c n"
  unfolding total_words_def
  by (rule sum_list_nonneg) (use pwords_pos in \<open>auto intro: order_trans [of 0 1]\<close>)

lemma total_words_zero_iff:
  "total_words c n = 0 \<longleftrightarrow> (\<forall>p. 1 \<le> p \<and> p \<le> n \<longrightarrow> c p = None)"
  by (simp add: total_words_def words_zero_iff located_empty_iff)

lemma total_len_no_words: "total_words c n = 0 \<Longrightarrow> total_len c n = 0"
  by (simp add: total_words_def total_len_def words_zero_iff)

lemma average_no_words: "total_words c n = 0 \<Longrightarrow> average c n = NaN"
  by (simp add: average_def js_div_def total_len_no_words)

lemma average_words:
  "total_words c n \<noteq> 0 \<Longrightarrow>
   average c n = Fin (of_int (total_len c n) / of_int (total_words c n))"
  by (simp add: average_def js_div_def)

lemma enableHighlights_iff:
  "enableHighlights x \<longleftrightarrow> (\<exists>q. x = Fin q \<and> 1 < q \<and> q < 10)"
  by (cases x) (simp_all add: enableHighlights_def js_gt_def MAX_AVG_WORD_LENGTH_def)

lemma enableHighlights_average:
  "enableHighlights (average c n) \<longleftrightarrow>
     total_words c n < total_len c n \<and> total_len c n < 10 * total_words c n"
proof (cases "total_words c n = 0")
  case True
  then show ?thesis
    by (simp add: average_no_words total_len_no_words enableHighlights_iff)
next
  case False
  with total_words_nonneg [of c n] have pos: "0 < total_words c n" by simp
  then have pos': "(0::rat) < of_int (total_words c n)" by simp
  have a: "(1 < (of_int (total_len c n) :: rat) / of_int (total_words c n)) \<longleftrightarrow>
      total_words c n < total_len c n"
    using pos' by (simp add: pos_less_divide_eq)
  have b: "((of_int (total_len c n) :: rat) / of_int (total_words c n) < 10) \<longleftrightarrow>
      total_len c n < 10 * total_words c n"
  proof -
    have "((of_int (total_len c n) :: rat) / of_int (total_words c n) < 10) \<longleftrightarrow>
      (of_int (total_len c n) :: rat) < 10 * of_int (total_words c n)"
      using pos' by (simp add: pos_divide_less_eq)
    also have "\<dots> \<longleftrightarrow> (of_int (total_len c n) :: rat) < of_int (10 * total_words c n)"
      by simp
    also have "\<dots> \<longleftrightarrow> total_len c n < 10 * total_words c n"
      by (rule of_int_less_iff)
    finally show ?thesis .
  qed
  show ?thesis
    using False a b by (simp add: average_words enableHighlights_iff)
qed

section \<open>The three-page example\<close>

lemma updateInitialLoadingProgress_indicator:
  assumes "indicator (loading_dlgbox w) = Some (v, vis)"
  shows "fst (updateInitialLoadingProgress x w) = None"
    and "indicator (loading_dlgbox (snd (updateInitialLoadingProgress x w))) =
           (if js_ge x (Fin 100) then Some (v, False) else Some (Math_round x, True))"
  using assms
  by (auto simp: updateInitialLoadingProgress_def lookup_progress_def indicator_def
      split: option.splits)

lemma progress_iff:
  "0 < d \<Longrightarrow> js_ge (times_100 (js_div (int d) (int c))) (Fin 100) \<longleftrightarrow> c \<le> d"
  using progress_done [of d c] progress_not_done [of d c] by (cases "c \<le> d") auto

lemma run_onRendered_step:
  assumes idle: "fst (getAllRenderPromises w) = []"
    and ind: "indicator (loading_dlgbox w) = Some (v, vis)"
  shows "fst (run_onRendered pn w) = None"
    and "indicator (loading_dlgbox (snd (run_onRendered pn w))) =
           (if pagesCount w \<le> length (marked (pn - 1) (rendered w)) then Some (v, False)
            else Some (Math_round (times_100 (js_div (int (length (marked (pn - 1) (rendered w))))
                    (int (pagesCount w)))), True))"
    and "filter is_DispatchEvent (new_effects w (snd (run_onRendered pn w))) =
           (if pagesCount w \<le> length (marked (pn - 1) (rendered w)) then [DispatchEvent None]
            else [])"
    and "subscribed (snd (run_onRendered pn w)) =
           (subscribed w \<and> length (marked (pn - 1) (rendered w)) < pagesCount w)"
    and "pagesCount (snd (run_onRendered pn w)) = pagesCount w"
    and "fst (getAllRenderPromises (snd (run_onRendered pn w))) = []"
    and "ConsoleLog (pn - 1) (length (marked (pn - 1) (rendered w))) (pagesCount w)
           \<in> set (new_effects w (snd (run_onRendered pn w)))"
proof -
  let ?w3 = "emit (ConsoleLog (pn - 1) (length (marked (pn - 1) (rendered w))) (pagesCount w))
       (mark_page (pn - 1) (stopTimer w))"
  let ?x = "times_100 (js_div (int (length (marked (pn - 1) (rendered w)))) (int (pagesCount w)))"
  have ind3: "indicator (loading_dlgbox ?w3) = Some (v, vis)" using ind by simp
  note u = updateInitialLoadingProgress_indicator [OF ind3, of ?x]
  note p = progress_iff [OF marked_nonempty, of "pn - 1" "rendered w" "pagesCount w"]
  show "fst (run_onRendered pn w) = None"
    using idle u(1) by (simp add: run_onRendered_unfold Let_def case_prod_beta)
  show "indicator (loading_dlgbox (snd (run_onRendered pn w))) =
           (if pagesCount w \<le> length (marked (pn - 1) (rendered w)) then Some (v, False)
            else Some (Math_round ?x, True))"
    using idle u p by (simp add: run_onRendered_unfold Let_def case_prod_beta)
  show "filter is_DispatchEvent (new_effects w (snd (run_onRendered pn w))) =
           (if pagesCount w \<le> length (marked (pn - 1) (rendered w)) then [DispatchEvent None]
            else [])"
    using idle u(1)
    by (simp add: run_onRendered_unfold Let_def case_prod_beta new_effects_def
        is_DispatchEvent_def split: option.splits)
  show "subscribed (snd (run_onRendered pn w)) =
           (subscribed w \<and> length (marked (pn - 1) (rendered w)) < pagesCount w)"
    using idle u(1) by (auto simp add: run_onRendered_unfold Let_def case_prod_beta)
  show "pagesCount (snd (run_onRendered pn w)) = pagesCount w"
    by (simp add: run_onRendered_unfold Let_def case_prod_beta split: option.splits)
  show "fst (getAllRenderPromises (snd (run_onRendered pn w))) = []"
    using idle by (simp add: run_onRendered_unfold Let_def case_prod_beta split: option.splits)
  show "ConsoleLog (pn - 1) (length (marked (pn - 1) (rendered w))) (pagesCount w)
           \<in> set (new_effects w (snd (run_onRendered pn w)))"
    by (simp add: run_onRendered_unfold Let_def case_prod_beta new_effects_def
        split: option.splits)
qed

lemma round_thirds:
  "Math_round (times_100 (js_div 1 3)) = Fin 33"
  "Math_round (times_100 (js_div 2 3)) = Fin 67"
  "Math_round (times_100 (js_div 3 3)) = Fin 100"
  by (simp_all add: js_div_def floor_eq_iff)

lemma three_page_run:
  assumes count: "pagesCount w = 3"
    and fresh: "rendered w = []"
    and sub: "subscribed w"
    and idle: "fst (getAllRenderPromises w) = []"
    and ind: "indicator (loading_dlgbox w) = Some (v, vis)"
    and dist: "distinct [a, b, c]"
  shows "(let w1 = deliver run_onRendered (TextLayerRendered a) w;
              w2 = deliver run_onRendered (TextLayerRendered b) w1;
              w3 = deliver run_onRendered (TextLayerRendered c) w2
          in ConsoleLog (a - 1) 1 3 \<in> set (new_effects w w1) \<and>
             ConsoleLog (b - 1) 2 3 \<in> set (new_effects w1 w2) \<and>
             ConsoleLog (c - 1) 3 3 \<in> set (new_effects w2 w3) \<and>
             Math_round (times_100 (js_div 1 3)) = Fin 33 \<and>
             Math_round (times_100 (js_div 2 3)) = Fin 67 \<and>
             Math_round (times_100 (js_div 3 3)) = Fin 100 \<and>
             indicator (loading_dlgbox w1) = Some (Fin 33, True) \<and>
             indicator (loading_dlgbox w2) = Some (Fin 67, True) \<and>
             indicator (loading_dlgbox w3) = Some (Fin 67, False) \<and>
             filter is_DispatchEvent (new_effects w w1) = [] \<and>
             filter is_DispatchEvent (new_effects w1 w2) = [] \<and>
             filter is_DispatchEvent (new_effects w2 w3) = [DispatchEvent None])"
proof -
  define w1 where "w1 = snd (run_onRendered a w)"
  define w2 where "w2 = snd (run_onRendered b w1)"
  define w3 where "w3 = snd (run_onRendered c w2)"
  have ab: "a - 1 \<noteq> b - 1" and ac: "a - 1 \<noteq> c - 1" and bc: "b - 1 \<noteq> c - 1"
    using dist by auto
  have m1: "marked (a - 1) (rendered w) = [(a - 1, True)]"
    by (simp add: fresh marked_def)
  note s1 = run_onRendered_step [OF idle ind, of a, unfolded m1 count, folded w1_def]
  have r1: "rendered w1 = [(a - 1, True)]"
    unfolding w1_def by (simp add: handlers_rendered m1)
  have m2: "marked (b - 1) (rendered w1) = [(a - 1, True), (b - 1, True)]"
    using ab by (simp add: r1 marked_def)
  have ind1: "indicator (loading_dlgbox w1) = Some (Fin 33, True)"
    using s1(2) by (simp add: round_thirds [simplified])
  have sub1: "subscribed w1" using s1(4) sub by simp
  have c1: "pagesCount w1 = 3" using s1(5) by simp
  note s2 = run_onRendered_step [OF s1(6) ind1, of b, unfolded m2 c1, folded w2_def]
  have r2: "rendered w2 = [(a - 1, True), (b - 1, True)]"
    unfolding w2_def by (simp add: handlers_rendered m2)
  have m3: "marked (c - 1) (rendered w2) = [(a - 1, True), (b - 1, True), (c - 1, True)]"
    using ac bc by (simp add: r2 marked_def)
  have ind2: "indicator (loading_dlgbox w2) = Some (Fin 67, True)"
    using s2(2) by (simp add: round_thirds [simplified])
  have sub2: "subscribed w2" using s2(4) sub1 by simp
  have c2: "pagesCount w2 = 3" using s2(5) by simp
  note s3 = run_onRendered_step [OF s2(6) ind2, of c, unfolded m3 c2, folded w3_def]
  have d1: "deliver run_onRendered (TextLayerRendered a) w = w1"
    using sub by (simp add: w1_def)
  have d2: "deliver run_onRendered (TextLayerRendered b) w1 = w2"
    using sub1 by (simp add: w2_def)
  have d3: "deliver run_onRendered (TextLayerRendered c) w2 = w3"
    using sub2 by (simp add: w3_def)
  show ?thesis
    unfolding Let_def d1 d2 d3
    using s1(3,7) s2(3,7) s3(2,3,7) ind1 ind2
    by (simp add: round_thirds numeral_2_eq_2 numeral_3_eq_3)
qed

lemma example_idle:
  "fst (getAllRenderPromises example_world) = []"
  "fst (getAllRenderPromises nearly_done_world) = []"
  "fst (getAllRenderPromises no_text_world) = []"
  "fst (getAllRenderPromises long_word_world) = []"
  "fst (getAllRenderPromises short_words_world) = []"
  by (simp_all add: example_world_def nearly_done_world_def no_text_world_def
      long_word_world_def short_words_world_def inFlight_def)

section \<open>The watchdog after a forced render\<close>

lemma host_update_host_fields [simp]:
  "pages (host_update f w) = pages (f w)"
  "heap (host_update f w) = heap (f w)"
  "keepTextLayers (host_update f w) = keepTextLayers (f w)"
  "pdfViewer_pagesCount (host_update f w) = pdfViewer_pagesCount (f w)"
  "pagesCount (host_update f w) = pagesCount (f w)"
  "loading_dlgbox (host_update f w) = loading_dlgbox (f w)"
  "page_containers (host_update f w) = page_containers (f w)"
  by (simp_all add: host_update_def)

lemma forced_startTimer [simp]: "forced (startTimer w) = forced w"
  by (simp add: forced_def)

lemma tick_after_force:
  assumes "forced w = Some view"
  shows "new_effects (host_update f (renderNextPage (startTimer w)))
        (deliver h WatchdogTick (host_update f (renderNextPage (startTimer w)))) =
      (if renderingState (heap (f (renderNextPage (startTimer w))) view) = PAUSED
       then [RenderView view] else [])"
  using assms
  by (simp add: new_effects_def onResumeRender_def renderView_def)

lemma onDocumentLoaded_onRendered_step:
  assumes idle: "fst (getAllRenderPromises w) = []"
    and ind: "indicator (loading_dlgbox w) = Some (v, vis)"
  shows "fst (onDocumentLoaded_onRendered pn w) = None"
    and "indicator (loading_dlgbox (snd (onDocumentLoaded_onRendered pn w))) =
           (if pagesCount w \<le> length (marked (pn - 1) (rendered w)) then Some (v, False)
            else Some (Math_round (times_100 (js_div (int (length (marked (pn - 1) (rendered w))))
                    (int (pagesCount w)))), True))"
    and "filter is_DispatchEvent (new_effects w (snd (onDocumentLoaded_onRendered pn w))) =
           (if pagesCount w \<le> length (marked (pn - 1) (rendered w))
            then [DispatchEvent (Some (enableHighlights (average (page_containers w) (pagesCount w))))]
            else [])"
    and "subscribed (snd (onDocumentLoaded_onRendered pn w)) =
           (subscribed w \<and> length (marked (pn - 1) (rendered w)) < pagesCount w)"
    and "pagesCount (snd (onDocumentLoaded_onRendered pn w)) = pagesCount w"
    and "fst (getAllRenderPromises (snd (onDocumentLoaded_onRendered pn w))) = []"
    and "ConsoleLog (pn - 1) (length (marked (pn - 1) (rendered w))) (pagesCount w)
           \<in> set (new_effects w (snd (onDocumentLoaded_onRendered pn w)))"
    and "page_containers (snd (onDocumentLoaded_onRendered pn w)) = page_containers w"
proof -
  let ?w3 = "emit (ConsoleLog (pn - 1) (length (marked (pn - 1) (rendered w))) (pagesCount w))
       (mark_page (pn - 1) (stopTimer w))"
  let ?x = "times_100 (js_div (int (length (marked (pn - 1) (rendered w)))) (int (pagesCount w)))"
  have ind3: "indicator (loading_dlgbox ?w3) = Some (v, vis)" using ind by simp
  note u = updateInitialLoadingProgress_indicator [OF ind3, of ?x]
  note p = progress_iff [OF marked_nonempty, of "pn - 1" "rendered w" "pagesCount w"]
  show "fst (onDocumentLoaded_onRendered pn w) = None"
    using idle u(1) by (simp add: onDocumentLoaded_onRendered_unfold Let_def case_prod_beta)
  show "indicator (loading_dlgbox (snd (onDocumentLoaded_onRendered pn w))) =
           (if pagesCount w \<le> length (marked (pn - 1) (rendered w)) then Some (v, False)
            else Some (Math_round ?x, True))"
    using idle u p by (simp add: onDocumentLoaded_onRendered_unfold Let_def case_prod_beta)
  show "filter is_DispatchEvent (new_effects w (snd (onDocumentLoaded_onRendered pn w))) =
           (if pagesCount w \<le> length (marked (pn - 1) (rendered w))
            then [DispatchEvent (Some (enableHighlights (average (page_containers w) (pagesCount w))))]
            else [])"
    using idle u(1)
    by (simp add: onDocumentLoaded_onRendered_unfold Let_def case_prod_beta new_effects_def
        is_DispatchEvent_def split: option.splits)
  show "subscribed (snd (onDocumentLoaded_onRendered pn w)) =
           (subscribed w \<and> length (marked (pn - 1) (rendered w)) < pagesCount w)"
    using idle u(1) by (auto simp add: onDocumentLoaded_onRendered_unfold Let_def case_prod_beta)
  show "pagesCount (snd (onDocumentLoaded_onRendered pn w)) = pagesCount w"
    by (simp add: onDocumentLoaded_onRendered_unfold Let_def case_prod_beta split: option.splits)
  show "fst (getAllRenderPromises (snd (onDocumentLoaded_onRendered pn w))) = []"
    using idle
    by (simp add: onDocumentLoaded_onRendered_unfold Let_def case_prod_beta split: option.splits)
  show "ConsoleLog (pn - 1) (length (marked (pn - 1) (rendered w))) (pagesCount w)
           \<in> set (new_effects w (snd (onDocumentLoaded_onRendered pn w)))"
    by (simp add: onDocumentLoaded_onRendered_unfold Let_def case_prod_beta new_effects_def
        split: option.splits)
  show "page_containers (snd (onDocumentLoaded_onRendered pn w)) = page_containers w"
    by (simp add: onDocumentLoaded_onRendered_unfold Let_def case_prod_beta split: option.splits)
qed

lemma three_page_run_ceiling:
  assumes count: "pagesCount w = 3"
    and fresh: "rendered w = []"
    and sub: "subscribed w"
    and idle: "fst (getAllRenderPromises w) = []"
    and ind: "indicator (loading_dlgbox w) = Some (v, vis)"
    and dist: "distinct [a, b, c]"
  shows "(let w1 = deliver onDocumentLoaded_onRendered (TextLayerRendered a) w;
              w2 = deliver onDocumentLoaded_onRendered (TextLayerRendered b) w1;
              w3 = deliver onDocumentLoaded_onRendered (TextLayerRendered c) w2
          in ConsoleLog (a - 1) 1 3 \<in> set (new_effects w w1) \<and>
             ConsoleLog (b - 1) 2 3 \<in> set (new_effects w1 w2) \<and>
             ConsoleLog (c - 1) 3 3 \<in> set (new_effects w2 w3) \<and>
             indicator (loading_dlgbox w1) = Some (Fin 33, True) \<and>
             indicator (loading_dlgbox w2) = Some (Fin 67, True) \<and>
             indicator (loading_dlgbox w3) = Some (Fin 67, False) \<and>
             filter is_DispatchEvent (new_effects w w1) = [] \<and>
             filter is_DispatchEvent (new_effects w1 w2) = [] \<and>
             filter is_DispatchEvent (new_effects w2 w3) =
               [DispatchEvent (Some (enableHighlights (average (page_containers w) 3)))])"
proof -
  define w1 where "w1 = snd (onDocumentLoaded_onRendered a w)"
  define w2 where "w2 = snd (onDocumentLoaded_onRendered b w1)"
  define w3 where "w3 = snd (onDocumentLoaded_onRendered c w2)"
  have ab: "a - 1 \<noteq> b - 1" and ac: "a - 1 \<noteq> c - 1" and bc: "b - 1 \<noteq> c - 1"
    using dist by auto
  have m1: "marked (a - 1) (rendered w) = [(a - 1, True)]"
    by (simp add: fresh marked_def)
  note s1 = onDocumentLoaded_onRendered_step [OF idle ind, of a, unfolded m1 count, folded w1_def]
  have r1: "rendered w1 = [(a - 1, True)]"
    unfolding w1_def by (simp add: handlers_rendered m1)
  have m2: "marked (b - 1) (rendered w1) = [(a - 1, True), (b - 1, True)]"
    using ab by (simp add: r1 marked_def)
  have ind1: "indicator (loading_dlgbox w1) = Some (Fin 33, True)"
    using s1(2) by (simp add: round_thirds [simplified])
  have sub1: "subscribed w1" using s1(4) sub by simp
  have c1: "pagesCount w1 = 3" using s1(5) by simp
  note s2 = onDocumentLoaded_onRendered_step [OF s1(6) ind1, of b, unfolded m2 c1, folded w2_def]
  have r2: "rendered w2 = [(a - 1, True), (b - 1, True)]"
    unfolding w2_def by (simp add: handlers_rendered m2)
  have m3: "marked (c - 1) (rendered w2) = [(a - 1, True), (b - 1, True), (c - 1, True)]"
    using ac bc by (simp add: r2 marked_def)
  have ind2: "indicator (loading_dlgbox w2) = Some (Fin 67, True)"
    using s2(2) by (simp add: round_thirds [simplified])
  have sub2: "subscribed w2" using s2(4) sub1 by simp
  have c2: "pagesCount w2 = 3" using s2(5) by simp
  have pc: "page_containers w2 = page_containers w" using s1(8) s2(8) by simp
  note s3 = onDocumentLoaded_onRendered_step [OF s2(6) ind2, of c, unfolded m3 c2 pc, folded w3_def]
  have d1: "deliver onDocumentLoaded_onRendered (TextLayerRendered a) w = w1"
    using sub by (simp add: w1_def)
  have d2: "deliver onDocumentLoaded_onRendered (TextLayerRendered b) w1 = w2"
    using sub1 by (simp add: w2_def)
  have d3: "deliver onDocumentLoaded_onRendered (TextLayerRendered c) w2 = w3"
    using sub2 by (simp add: w3_def)
  show ?thesis
    unfolding Let_def d1 d2 d3
    using s1(3,7) s2(3,7) s3(2,3,7) ind1 ind2
    by (simp add: numeral_2_eq_2 numeral_3_eq_3)
qed

section \<open>The claims\<close>

text \<open>
  Claim C1.  Take a subscribed cycle and a page-rendered event after which the number of
  keys of \<^verbatim>\<open>rendered\<close> equals the page count while \<^verbatim>\<open>getAllRenderPromises\<close>
  finds nothing in flight.  Then, whatever inputs follow (further page-rendered events,
  duplicates, timer ticks, changes of the host's state), the effects from that event on
  hold no request to render and no timer start, exactly one removal of the subscription
  and exactly one \<^verbatim>\<open>documentrendered\<close> signal.  This holds for all three variants;
  the earliest one has no timer, so its world is one where no timer is set.
\<close>

theorem terminal_transition_once:
  assumes sub: "subscribed w"
    and d: "length (marked (pn - 1) (rendered w)) = pagesCount w"
    and idle: "fst (getAllRenderPromises w) = []"
  shows "terminal_effects
           (new_effects w (deliver_all onDocumentLoaded_onRendered (TextLayerRendered pn # ins) w)) \<and>
         terminal_effects
           (new_effects w (deliver_all run_onRendered (TextLayerRendered pn # ins) w)) \<and>
         (timer w = None \<longrightarrow>
          terminal_effects
            (new_effects w (deliver_all part_000_onRendered (TextLayerRendered pn # ins) w)))"
proof -
  have d': "pagesCount w \<le> length (marked (pn - 1) (rendered w))" using d by simp
  note a = onDocumentLoaded_terminal [OF d' idle]
  note b = run_terminal [OF d' idle]
  note c = part_000_terminal [OF d' idle]
  have "terminal_effects
     (new_effects w (deliver_all onDocumentLoaded_onRendered (TextLayerRendered pn # ins) w))"
    unfolding terminal_then_idle [where h = onDocumentLoaded_onRendered, OF sub a(4) a(2) a(3)]
    by (simp add: terminal_effects_def is_RenderView_def is_DispatchEvent_def is_SetInterval_def)
  moreover have "terminal_effects
     (new_effects w (deliver_all run_onRendered (TextLayerRendered pn # ins) w))"
    unfolding terminal_then_idle [where h = run_onRendered, OF sub b(4) b(2) b(3)]
    by (simp add: terminal_effects_def is_RenderView_def is_DispatchEvent_def is_SetInterval_def)
  moreover have "terminal_effects
     (new_effects w (deliver_all part_000_onRendered (TextLayerRendered pn # ins) w))"
    if t: "timer w = None"
    unfolding terminal_then_idle [where h = part_000_onRendered, OF sub c(4) c(2) c(3) [unfolded t]]
    by (simp add: terminal_effects_def is_RenderView_def is_DispatchEvent_def is_SetInterval_def)
  ultimately show ?thesis by simp
qed

theorem terminal_transition_once_witness:
  "subscribed nearly_done_world \<and>
   length (marked (3 - 1) (rendered nearly_done_world)) = pagesCount nearly_done_world \<and>
   fst (getAllRenderPromises nearly_done_world) = [] \<and>
   timer nearly_done_world = None \<and>
   terminal_effects
     (new_effects nearly_done_world
        (deliver_all onDocumentLoaded_onRendered
           (TextLayerRendered 3 # [TextLayerRendered 1, WatchdogTick, TextLayerRendered 3])
           nearly_done_world)) \<and>
   terminal_effects
     (new_effects nearly_done_world
        (deliver_all run_onRendered
           (TextLayerRendered 3 # [TextLayerRendered 1, WatchdogTick, TextLayerRendered 3])
           nearly_done_world)) \<and>
   terminal_effects
     (new_effects nearly_done_world
        (deliver_all part_000_onRendered
           (TextLayerRendered 3 # [TextLayerRendered 1, WatchdogTick, TextLayerRendered 3])
           nearly_done_world))"
proof -
  have h1: "subscribed nearly_done_world"
    and h2: "length (marked (3 - 1) (rendered nearly_done_world)) = pagesCount nearly_done_world"
    and h4: "timer nearly_done_world = None"
    by (simp_all add: nearly_done_world_def example_world_def marked_def)
  from h1 h2 example_idle(2) h4
    terminal_transition_once [OF h1 h2 example_idle(2),
      of "[TextLayerRendered 1, WatchdogTick, TextLayerRendered 3]"]
  show ?thesis by blast
qed

text \<open>
  Claim C2.  An event for a page index that is already marked leaves the number of keys
  of \<^verbatim>\<open>rendered\<close> as it was and logs the warning; and in a cycle that starts with
  \<^verbatim>\<open>rendered\<close> empty, after any sequence of inputs the number of keys is at most
  the number of distinct page indices among the page-rendered events delivered.
\<close>

theorem done_count_idempotent:
  "(map_of (rendered w) (pn - 1) = Some True \<longrightarrow>
      length (rendered (snd (run_onRendered pn w))) = length (rendered w) \<and>
      ConsoleWarn (pn - 1) \<in> set (new_effects w (snd (run_onRendered pn w))) \<and>
      length (rendered (snd (part_000_onRendered pn w))) = length (rendered w) \<and>
      ConsoleWarn (pn - 1) \<in> set (new_effects w (snd (part_000_onRendered pn w))) \<and>
      length (rendered (snd (onDocumentLoaded_onRendered pn w))) = length (rendered w) \<and>
      ConsoleWarn (pn - 1) \<in> set (new_effects w (snd (onDocumentLoaded_onRendered pn w)))) \<and>
   (rendered w = [] \<longrightarrow>
      length (rendered (deliver_all run_onRendered ins w)) \<le> card (set (page_indices ins)) \<and>
      length (rendered (deliver_all part_000_onRendered ins w)) \<le> card (set (page_indices ins)) \<and>
      length (rendered (deliver_all onDocumentLoaded_onRendered ins w))
        \<le> card (set (page_indices ins)))"
proof (intro conjI impI)
  assume dup: "map_of (rendered w) (pn - 1) = Some True"
  show "length (rendered (snd (run_onRendered pn w))) = length (rendered w)"
    by (simp add: handlers_rendered marked_duplicate [OF dup])
  show "length (rendered (snd (part_000_onRendered pn w))) = length (rendered w)"
    by (simp add: handlers_rendered marked_duplicate [OF dup])
  show "length (rendered (snd (onDocumentLoaded_onRendered pn w))) = length (rendered w)"
    by (simp add: handlers_rendered marked_duplicate [OF dup])
  show "ConsoleWarn (pn - 1) \<in> set (new_effects w (snd (run_onRendered pn w)))"
    by (rule duplicate_warns [OF dup])
  show "ConsoleWarn (pn - 1) \<in> set (new_effects w (snd (part_000_onRendered pn w)))"
    by (rule duplicate_warns [OF dup])
  show "ConsoleWarn (pn - 1) \<in> set (new_effects w (snd (onDocumentLoaded_onRendered pn w)))"
    by (rule duplicate_warns [OF dup])
next
  assume fresh: "rendered w = []"
  show "length (rendered (deliver_all run_onRendered ins w)) \<le> card (set (page_indices ins))"
    by (rule done_count_bound [OF handlers_rendered(2) fresh])
  show "length (rendered (deliver_all part_000_onRendered ins w)) \<le> card (set (page_indices ins))"
    by (rule done_count_bound [OF handlers_rendered(1) fresh])
  show "length (rendered (deliver_all onDocumentLoaded_onRendered ins w))
        \<le> card (set (page_indices ins))"
    by (rule done_count_bound [OF handlers_rendered(3) fresh])
qed

theorem done_count_idempotent_witness:
  "map_of (rendered nearly_done_world) (1 - 1) = Some True \<and>
   length (rendered (snd (run_onRendered 1 nearly_done_world))) =
     length (rendered nearly_done_world) \<and>
   ConsoleWarn (1 - 1) \<in> set (new_effects nearly_done_world (snd (run_onRendered 1 nearly_done_world))) \<and>
   length (rendered (snd (part_000_onRendered 1 nearly_done_world))) =
     length (rendered nearly_done_world) \<and>
   rendered example_world = [] \<and>
   length (rendered (deliver_all run_onRendered
     [TextLayerRendered 2, TextLayerRendered 2, WatchdogTick, TextLayerRendered 1] example_world))
     \<le> card (set (page_indices
          [TextLayerRendered 2, TextLayerRendered 2, WatchdogTick, TextLayerRendered 1])) \<and>
   card (set (page_indices
     [TextLayerRendered 2, TextLayerRendered 2, WatchdogTick, TextLayerRendered 1])) = 2"
proof -
  have h1: "map_of (rendered nearly_done_world) (1 - 1) = Some True"
    and h2: "rendered example_world = []"
    by (simp_all add: nearly_done_world_def example_world_def)
  have h3: "card (set (page_indices
     [TextLayerRendered 2, TextLayerRendered 2, WatchdogTick, TextLayerRendered 1])) = 2"
    by simp
  from h1 h2 h3
    done_count_idempotent [of nearly_done_world 1]
    done_count_idempotent [of example_world _
      "[TextLayerRendered 2, TextLayerRendered 2, WatchdogTick, TextLayerRendered 1]"]
  show ?thesis by blast
qed

text \<open>
  Claim C3.  \<^verbatim>\<open>enableHighlights\<close> holds exactly for the finite averages strictly
  between 1 and 10: it fails at exactly 1, at exactly 10 and at \<^verbatim>\<open>NaN\<close>.  The
  average that \<^verbatim>\<open>calculateAverageWordLength\<close> returns is the quotient of the two
  totals, so the document is eligible exactly when
  \<open>total_words < total_len < 10 * total_words\<close>; with no word at all the average is
  \<^verbatim>\<open>NaN\<close> and the document is not eligible.  At the terminal transition the handler
  returns without an exception, dispatches \<^verbatim>\<open>documentrendered\<close> with this flag, and
  shows the notice exactly when the flag is false.
\<close>

theorem eligibility_open_interval:
  "(enableHighlights x \<longleftrightarrow> (\<exists>q. x = Fin q \<and> 1 < q \<and> q < 10)) \<and>
   \<not> enableHighlights (Fin 1) \<and> \<not> enableHighlights (Fin 10) \<and> \<not> enableHighlights NaN \<and>
   fst (calculateAverageWordLength n w) = average (page_containers w) n \<and>
   (enableHighlights (average (page_containers w) n) \<longleftrightarrow>
      total_words (page_containers w) n < total_len (page_containers w) n \<and>
      total_len (page_containers w) n < 10 * total_words (page_containers w) n) \<and>
   (total_words (page_containers w) n = 0 \<longrightarrow>
      fst (calculateAverageWordLength n w) = NaN \<and>
      \<not> enableHighlights (fst (calculateAverageWordLength n w))) \<and>
   (pagesCount w \<le> length (marked (pn - 1) (rendered w)) \<and> fst (getAllRenderPromises w) = [] \<longrightarrow>
      fst (onDocumentLoaded_onRendered pn w) = None \<and>
      filter is_DispatchEvent (new_effects w (snd (onDocumentLoaded_onRendered pn w))) =
        [DispatchEvent (Some (enableHighlights (average (page_containers w) (pagesCount w))))] \<and>
      (Alert Unsupported \<in> set (new_effects w (snd (onDocumentLoaded_onRendered pn w))) \<longleftrightarrow>
         \<not> enableHighlights (average (page_containers w) (pagesCount w))))"
proof (intro conjI impI)
  show "enableHighlights x \<longleftrightarrow> (\<exists>q. x = Fin q \<and> 1 < q \<and> q < 10)"
    by (rule enableHighlights_iff)
  show "\<not> enableHighlights (Fin 1)" "\<not> enableHighlights (Fin 10)" "\<not> enableHighlights NaN"
    by (simp_all add: enableHighlights_iff)
  show "fst (calculateAverageWordLength n w) = average (page_containers w) n"
    by simp
  show "enableHighlights (average (page_containers w) n) \<longleftrightarrow>
      total_words (page_containers w) n < total_len (page_containers w) n \<and>
      total_len (page_containers w) n < 10 * total_words (page_containers w) n"
    by (rule enableHighlights_average)
next
  assume z: "total_words (page_containers w) n = 0"
  show "fst (calculateAverageWordLength n w) = NaN"
    by (simp add: average_no_words [OF z])
  show "\<not> enableHighlights (fst (calculateAverageWordLength n w))"
    by (simp add: average_no_words [OF z] enableHighlights_iff)
next
  assume t: "pagesCount w \<le> length (marked (pn - 1) (rendered w)) \<and> fst (getAllRenderPromises w) = []"
  note a = onDocumentLoaded_terminal [OF conjunct1 [OF t] conjunct2 [OF t]]
  show "fst (onDocumentLoaded_onRendered pn w) = None" by (rule a(1))
  show "filter is_DispatchEvent (new_effects w (snd (onDocumentLoaded_onRendered pn w))) =
        [DispatchEvent (Some (enableHighlights (average (page_containers w) (pagesCount w))))]"
    by (simp add: new_effects_def a(4) is_DispatchEvent_def)
  show "Alert Unsupported \<in> set (new_effects w (snd (onDocumentLoaded_onRendered pn w))) \<longleftrightarrow>
         \<not> enableHighlights (average (page_containers w) (pagesCount w))"
    by (auto simp: new_effects_def a(4) heuristic_effects_def mark_effects_def clear_effects_def
        split: option.splits)
qed

theorem eligibility_open_interval_witness:
  "enableHighlights (Fin 2) \<and> \<not> enableHighlights (Fin 1) \<and> \<not> enableHighlights (Fin 10) \<and>
   total_words (page_containers no_text_world) 3 = 0 \<and>
   fst (calculateAverageWordLength 3 no_text_world) = NaN \<and>
   \<not> enableHighlights (fst (calculateAverageWordLength 3 no_text_world)) \<and>
   pagesCount nearly_done_world \<le> length (marked (3 - 1) (rendered nearly_done_world)) \<and>
   fst (getAllRenderPromises nearly_done_world) = [] \<and>
   fst (onDocumentLoaded_onRendered 3 nearly_done_world) = None \<and>
   average (page_containers nearly_done_world) (pagesCount nearly_done_world) = Fin 1 \<and>
   filter is_DispatchEvent
     (new_effects nearly_done_world (snd (onDocumentLoaded_onRendered 3 nearly_done_world))) =
     [DispatchEvent (Some False)] \<and>
   pagesCount no_text_world \<le> length (marked (3 - 1) (rendered no_text_world)) \<and>
   fst (getAllRenderPromises no_text_world) = [] \<and>
   fst (onDocumentLoaded_onRendered 3 no_text_world) = None \<and>
   filter is_DispatchEvent
     (new_effects no_text_world (snd (onDocumentLoaded_onRendered 3 no_text_world))) =
     [DispatchEvent (Some False)] \<and>
   pagesCount long_word_world \<le> length (marked (3 - 1) (rendered long_word_world)) \<and>
   fst (getAllRenderPromises long_word_world) = [] \<and>
   average (page_containers long_word_world) (pagesCount long_word_world) = Fin 10 \<and>
   filter is_DispatchEvent
     (new_effects long_word_world (snd (onDocumentLoaded_onRendered 3 long_word_world))) =
     [DispatchEvent (Some False)] \<and>
   pagesCount short_words_world \<le> length (marked (3 - 1) (rendered short_words_world)) \<and>
   fst (getAllRenderPromises short_words_world) = [] \<and>
   average (page_containers short_words_world) (pagesCount short_words_world) = Fin 2 \<and>
   filter is_DispatchEvent
     (new_effects short_words_world (snd (onDocumentLoaded_onRendered 3 short_words_world))) =
     [DispatchEvent (Some True)]"
proof -
  have h4: "pagesCount long_word_world \<le> length (marked (3 - 1) (rendered long_word_world))"
    and h5: "pagesCount short_words_world \<le> length (marked (3 - 1) (rendered short_words_world))"
    by (simp_all add: long_word_world_def short_words_world_def nearly_done_world_def
        example_world_def marked_def)
  have c: "average (page_containers long_word_world) (pagesCount long_word_world) = Fin 10"
    by (simp add: long_word_world_def nearly_done_world_def example_world_def average_def
        total_len_def total_words_def located_def pwords_def split_whitespace_def
        isWhiteSpace_def js_div_def upt_rec)
  have d: "average (page_containers short_words_world) (pagesCount short_words_world) = Fin 2"
    by (simp add: short_words_world_def nearly_done_world_def example_world_def average_def
        total_len_def total_words_def located_def pwords_def split_whitespace_def
        isWhiteSpace_def js_div_def upt_rec)
  note t3 = eligibility_open_interval [of "Fin 2" 3 long_word_world 3]
  note t4 = eligibility_open_interval [of "Fin 2" 3 short_words_world 3]
  have h1: "total_words (page_containers no_text_world) 3 = 0"
    by (simp add: no_text_world_def total_words_zero_iff)
  have h2: "pagesCount nearly_done_world \<le> length (marked (3 - 1) (rendered nearly_done_world))"
    and h3: "pagesCount no_text_world \<le> length (marked (3 - 1) (rendered no_text_world))"
    by (simp_all add: no_text_world_def nearly_done_world_def example_world_def marked_def)
  have a: "average (page_containers nearly_done_world) (pagesCount nearly_done_world) = Fin 1"
    by (simp add: nearly_done_world_def example_world_def average_def total_len_def
        total_words_def located_def pwords_def split_whitespace_def isWhiteSpace_def js_div_def
        upt_rec)
  have b: "average (page_containers no_text_world) (pagesCount no_text_world) = NaN"
    by (rule average_no_words) (simp add: no_text_world_def total_words_zero_iff)
  note t1 = eligibility_open_interval [of "Fin 2" 3 no_text_world 3]
  note t2 = eligibility_open_interval [of "Fin 2" 3 nearly_done_world 3]
  have e2: "enableHighlights (Fin 2)" using t1 by simp
  have n1: "\<not> enableHighlights (Fin 1)" and n10: "\<not> enableHighlights (Fin 10)"
    and nn: "\<not> enableHighlights NaN"
    using t1 by blast+
  from t1 t2 t3 t4 h1 h2 h3 h4 h5 example_idle(2,3,4,5) a b c d e2 n1 n10 nn show ?thesis
    by simp
qed

text \<open>
  Claim C4 says that updating the progress indicator never raises.  With a dialog that
  holds no \<^verbatim>\<open>progress\<close> element, \<^verbatim>\<open>querySelector\<close> gives \<^verbatim>\<open>null\<close> inside the
  \<^verbatim>\<open>try\<close> block without raising, and for a progress below 100 the assignment to
  \<^verbatim>\<open>meter.value\<close> after the block raises a \<^verbatim>\<open>TypeError\<close>, which leaves
  \<^verbatim>\<open>updateInitialLoadingProgress\<close>, the entry points \<^verbatim>\<open>run\<close> and
  \<^verbatim>\<open>onDocumentLoaded\<close>, and the handler \<^verbatim>\<open>onRendered\<close>.
\<close>

theorem updateInitialLoadingProgress_raises_without_meter:
  "updateInitialLoadingProgress (Fin 0) no_meter_world = (Some TypeError, no_meter_world) \<and>
   fst (run no_meter_world) = Some TypeError \<and>
   fst (part_000_run no_meter_world) = Some TypeError \<and>
   fst (onDocumentLoaded no_meter_world) = Some TypeError \<and>
   fst (run_onRendered 1 no_meter_world) = Some TypeError"
  by (simp add: no_meter_world_def example_world_def updateInitialLoadingProgress_def
      lookup_progress_def js_ge_def run_def part_000_run_def onDocumentLoaded_def
      MAX_CACHE_SIZE_def run_onRendered_unfold Let_def mark_page_def js_div_def emit_def
      stopTimer_def)

text \<open>
  Claim C5, amended.  When the viewer keeps its text layers and the page count exceeds 100,
  \<^verbatim>\<open>onDocumentLoaded\<close> shows the capacity notice and does nothing else; from a
  module state with no subscription and no timer, no later input adds any effect: nothing
  is subscribed, no page is forced, no \<^verbatim>\<open>documentrendered\<close> is dispatched.  When the
  viewer does not keep its text layers, \<^verbatim>\<open>onDocumentLoaded\<close> returns at its first
  test, whatever the page count: it shows no notice, and likewise nothing follows.
\<close>

theorem capacity_abort:
  "(keepTextLayers w \<and> 100 < pdfViewer_pagesCount w \<longrightarrow>
      onDocumentLoaded w = (None, w\<lparr>effects := effects w @ [Alert TooLarge]\<rparr>) \<and>
      (\<not> subscribed w \<and> timer w = None \<longrightarrow>
         new_effects w (deliver_all onDocumentLoaded_onRendered ins (snd (onDocumentLoaded w)))
           = [Alert TooLarge])) \<and>
   (\<not> keepTextLayers w \<longrightarrow>
      onDocumentLoaded w = (None, w) \<and>
      (\<not> subscribed w \<and> timer w = None \<longrightarrow>
         new_effects w (deliver_all onDocumentLoaded_onRendered ins (snd (onDocumentLoaded w)))
           = []))"
proof (intro conjI impI)
  assume a: "keepTextLayers w \<and> 100 < pdfViewer_pagesCount w"
  then show eq: "onDocumentLoaded w = (None, w\<lparr>effects := effects w @ [Alert TooLarge]\<rparr>)"
    by (simp add: onDocumentLoaded_def MAX_CACHE_SIZE_def emit_def)
  assume "\<not> subscribed w \<and> timer w = None"
  then show "new_effects w (deliver_all onDocumentLoaded_onRendered ins (snd (onDocumentLoaded w)))
           = [Alert TooLarge]"
    using deliver_all_idle [of "w\<lparr>effects := effects w @ [Alert TooLarge]\<rparr>"
        onDocumentLoaded_onRendered ins]
    by (simp add: eq new_effects_def)
next
  assume a: "\<not> keepTextLayers w"
  then show eq: "onDocumentLoaded w = (None, w)"
    by (simp add: onDocumentLoaded_def)
  assume "\<not> subscribed w \<and> timer w = None"
  then show "new_effects w (deliver_all onDocumentLoaded_onRendered ins (snd (onDocumentLoaded w)))
           = []"
    using deliver_all_idle [of w onDocumentLoaded_onRendered ins]
    by (simp add: eq new_effects_def)
qed

theorem capacity_abort_witness:
  "keepTextLayers large_world \<and> 100 < pdfViewer_pagesCount large_world \<and>
   \<not> subscribed large_world \<and> timer large_world = None \<and>
   onDocumentLoaded large_world =
     (None, large_world\<lparr>effects := effects large_world @ [Alert TooLarge]\<rparr>) \<and>
   new_effects large_world
     (deliver_all onDocumentLoaded_onRendered
        [TextLayerRendered 150, WatchdogTick, TextLayerRendered 1]
        (snd (onDocumentLoaded large_world))) = [Alert TooLarge] \<and>
   \<not> keepTextLayers disabled_world \<and>
   \<not> subscribed disabled_world \<and> timer disabled_world = None \<and>
   onDocumentLoaded disabled_world = (None, disabled_world) \<and>
   new_effects disabled_world
     (deliver_all onDocumentLoaded_onRendered
        [TextLayerRendered 150, WatchdogTick, TextLayerRendered 1]
        (snd (onDocumentLoaded disabled_world))) = []"
proof -
  have a: "keepTextLayers large_world \<and> 100 < pdfViewer_pagesCount large_world"
    and b: "\<not> subscribed large_world \<and> timer large_world = None"
    by (simp_all add: large_world_def example_world_def)
  have c: "\<not> keepTextLayers disabled_world"
    and d: "\<not> subscribed disabled_world \<and> timer disabled_world = None"
    by (simp_all add: disabled_world_def example_world_def)
  from a b c d
    capacity_abort [of large_world "[TextLayerRendered 150, WatchdogTick, TextLayerRendered 1]"]
    capacity_abort [of disabled_world "[TextLayerRendered 150, WatchdogTick, TextLayerRendered 1]"]
  show ?thesis by blast
qed

text \<open>
  Claim C5 as stated fails: a document of 150 pages in a viewer that does not keep its text
  layers gets no capacity notice.
\<close>

theorem capacity_notice_needs_keepTextLayers:
  "pdfViewer_pagesCount disabled_world = 150 \<and>
   onDocumentLoaded disabled_world = (None, disabled_world) \<and>
   Alert TooLarge \<notin> set (effects (snd (onDocumentLoaded disabled_world)))"
  by (simp add: onDocumentLoaded_def disabled_world_def example_world_def)

text \<open>
  Claim C6.  \<^verbatim>\<open>renderNextPage\<close> forces the first page, from the last index down, whose
  text layer is absent or has fewer than one child node: it records that view in
  \<^verbatim>\<open>renderingView\<close> (the earliest variant keeps no such record) and requests
  exactly that view from the rendering queue; with no such page it changes nothing.
\<close>

theorem renderNextPage_forces_first_unrendered:
  "renderNextPage w =
     (case find (\<lambda>view. textLayer (heap w view) = None \<or> (\<exists>n. textLayer (heap w view) = Some n \<and> n < 1)) (rev (pages w)) of
        None \<Rightarrow> w
      | Some view \<Rightarrow> w\<lparr>renderingView := Some view, effects := effects w @ [RenderView view]\<rparr>) \<and>
   part_000_renderNextPage w =
     (case find (\<lambda>view. textLayer (heap w view) = None \<or> (\<exists>n. textLayer (heap w view) = Some n \<and> n < 1)) (rev (pages w)) of
        None \<Rightarrow> w
      | Some view \<Rightarrow> w\<lparr>effects := effects w @ [RenderView view]\<rparr>)"
proof -
  have "(\<lambda>view. textLayer (heap w view) = None \<or> (\<exists>n. textLayer (heap w view) = Some n \<and> n < 1))
      = (\<lambda>view. notRendered (heap w view))"
    by (auto simp: notRendered_def fun_eq_iff split: option.splits)
  then show ?thesis
    by (simp add: renderNextPage_eq part_000_renderNextPage_eq renderView_def emit_def
        split: option.splits)
qed

theorem renderNextPage_witness:
  "renderNextPage example_world = example_world\<lparr>renderingView := Some 1, effects := [RenderView 1]\<rparr> \<and>
   part_000_renderNextPage example_world = example_world\<lparr>effects := [RenderView 1]\<rparr>"
  using renderNextPage_forces_first_unrendered [of example_world]
  by (simp add: example_world_def)

text \<open>
  Claim C7.  A watchdog tick requests the recorded view again exactly when a view is
  recorded and its current rendering state is \<^verbatim>\<open>PAUSED\<close>; otherwise it changes
  nothing.  In particular, after the handler has started the timer and forced a view,
  and the host has then changed its state in any way, the tick requests that same view
  exactly when the host has left it paused.
\<close>

theorem onResumeRender_reissues_iff_paused:
  "onResumeRender w =
     (if \<exists>view. renderingView w = Some view \<and> renderingState (heap w view) = PAUSED
      then w\<lparr>effects := effects w @ [RenderView (the (renderingView w))]\<rparr>
      else w) \<and>
   (forced w = Some view \<longrightarrow>
      new_effects (host_update f (renderNextPage (startTimer w)))
        (deliver onRendered WatchdogTick (host_update f (renderNextPage (startTimer w)))) =
      (if renderingState (heap (f (renderNextPage (startTimer w))) view) = PAUSED
       then [RenderView view] else []))"
proof (intro conjI impI)
  show "onResumeRender w =
     (if \<exists>view. renderingView w = Some view \<and> renderingState (heap w view) = PAUSED
      then w\<lparr>effects := effects w @ [RenderView (the (renderingView w))]\<rparr>
      else w)"
    by (auto simp: onResumeRender_def renderView_def emit_def split: option.splits)
next
  assume "forced w = Some view"
  then show "new_effects (host_update f (renderNextPage (startTimer w)))
        (deliver onRendered WatchdogTick (host_update f (renderNextPage (startTimer w)))) =
      (if renderingState (heap (f (renderNextPage (startTimer w))) view) = PAUSED
       then [RenderView view] else [])"
    by (rule tick_after_force)
qed

theorem onResumeRender_witness:
  "onResumeRender (example_world\<lparr>renderingView := Some 2\<rparr>) =
     example_world\<lparr>renderingView := Some 2, effects := [RenderView 2]\<rparr> \<and>
   onResumeRender (example_world\<lparr>renderingView := Some 1\<rparr>) =
     example_world\<lparr>renderingView := Some 1\<rparr> \<and>
   onResumeRender example_world = example_world \<and>
   forced example_world = Some 1 \<and>
   new_effects (host_update pause_all (renderNextPage (startTimer example_world)))
     (deliver run_onRendered WatchdogTick
        (host_update pause_all (renderNextPage (startTimer example_world)))) =
     [RenderView 1] \<and>
   new_effects (host_update id (renderNextPage (startTimer example_world)))
     (deliver run_onRendered WatchdogTick
        (host_update id (renderNextPage (startTimer example_world)))) = []"
proof -
  have a: "onResumeRender (example_world\<lparr>renderingView := Some 2\<rparr>) =
     example_world\<lparr>renderingView := Some 2, effects := [RenderView 2]\<rparr>"
    using onResumeRender_reissues_iff_paused [of "example_world\<lparr>renderingView := Some 2\<rparr>"]
    by (simp add: example_world_def)
  have b: "onResumeRender (example_world\<lparr>renderingView := Some 1\<rparr>) =
     example_world\<lparr>renderingView := Some 1\<rparr>"
    using onResumeRender_reissues_iff_paused [of "example_world\<lparr>renderingView := Some 1\<rparr>"]
    by (simp add: example_world_def)
  have c: "onResumeRender example_world = example_world"
    using onResumeRender_reissues_iff_paused [of example_world]
    by (simp add: example_world_def)
  have f: "forced example_world = Some 1"
    by (simp add: forced_def example_world_def notRendered_def)
  have p: "renderingState (heap (pause_all (renderNextPage (startTimer example_world))) 1) = PAUSED"
    by (simp add: pause_all_def)
  have q: "renderingState (heap (id (renderNextPage (startTimer example_world))) 1) \<noteq> PAUSED"
    by (simp add: example_world_def)
  have d: "new_effects (host_update pause_all (renderNextPage (startTimer example_world)))
     (deliver run_onRendered WatchdogTick
        (host_update pause_all (renderNextPage (startTimer example_world)))) = [RenderView 1]"
    using onResumeRender_reissues_iff_paused [of example_world 1 pause_all run_onRendered] f p
    by simp
  have e: "new_effects (host_update id (renderNextPage (startTimer example_world)))
     (deliver run_onRendered WatchdogTick
        (host_update id (renderNextPage (startTimer example_world)))) = []"
    using onResumeRender_reissues_iff_paused [of example_world 1 id run_onRendered] f q
    by simp
  from a b c f d e show ?thesis by blast
qed

text \<open>
  Claim C8.  The index loop of \<^verbatim>\<open>forEachView\<close> is the walk \<open>visit_in_order\<close> over
  the pages from the last to the first: a visit that raises is logged and the walk goes
  on, the first defined value ends the walk and is the result, and the result is
  \<^verbatim>\<open>undefined\<close> when no visit returns a defined value.
\<close>

theorem forEachView_last_to_first:
  "forEachView visit (l, w) = visit_in_order visit (rev (pages w)) (l, w)"
  by (rule forEachView_visit_in_order)

theorem forEachView_witness:
  "forEachView
     (\<lambda>view (visited, w).
        if view = 2 then (Throw (Error ''stale view''), visited @ [view], w)
        else if view = 1 then (Return (Some view), visited @ [view], w)
        else (Return None, visited @ [view], w))
     ([], example_world) =
   (Some 1, [2, 1], example_world\<lparr>effects := [ConsoleError (Error ''stale view'')]\<rparr>) \<and>
   forEachView
     (\<lambda>view (visited, w).
        if view = 2 then (Throw (Error ''stale view''), visited @ [view], w)
        else (Return (None :: nat option), visited @ [view], w))
     ([], example_world) =
   (None, [2, 1, 0], example_world\<lparr>effects := [ConsoleError (Error ''stale view'')]\<rparr>)"
  using forEachView_last_to_first [of
      "\<lambda>view (visited, w).
        if view = 2 then (Throw (Error ''stale view''), visited @ [view], w)
        else if view = 1 then (Return (Some view), visited @ [view], w)
        else (Return None, visited @ [view], w)" "[]" example_world]
    forEachView_last_to_first [of
      "\<lambda>view (visited, w).
        if view = 2 then (Throw (Error ''stale view''), visited @ [view], w)
        else (Return (None :: nat option), visited @ [view], w)" "[]" example_world]
  by (simp add: example_world_def emit_def)

text \<open>
  Claim C9, amended.  With three pages, nothing in flight and a dialog that holds a meter,
  three page-rendered events for distinct pages, in any order, log the counts 1/3, 2/3
  and 3/3, whose percentages round to 33, 67 and 100.  The meter is set to 33 and then to
  67 with the dialog visible; at 100 the dialog is hidden and the meter keeps 67.  No
  \<^verbatim>\<open>documentrendered\<close> is dispatched by the first two events, and exactly one by the
  third.  This holds for \<^verbatim>\<open>run\<close> and for the variant with the page-count ceiling,
  whose signal carries the eligibility flag.
\<close>

theorem three_page_example:
  assumes "pagesCount w = 3"
    and "rendered w = []"
    and "subscribed w"
    and "fst (getAllRenderPromises w) = []"
    and "indicator (loading_dlgbox w) = Some (v, vis)"
    and "distinct [a, b, c]"
  shows "(let w1 = deliver run_onRendered (TextLayerRendered a) w;
              w2 = deliver run_onRendered (TextLayerRendered b) w1;
              w3 = deliver run_onRendered (TextLayerRendered c) w2
          in ConsoleLog (a - 1) 1 3 \<in> set (new_effects w w1) \<and>
             ConsoleLog (b - 1) 2 3 \<in> set (new_effects w1 w2) \<and>
             ConsoleLog (c - 1) 3 3 \<in> set (new_effects w2 w3) \<and>
             Math_round (times_100 (js_div 1 3)) = Fin 33 \<and>
             Math_round (times_100 (js_div 2 3)) = Fin 67 \<and>
             Math_round (times_100 (js_div 3 3)) = Fin 100 \<and>
             indicator (loading_dlgbox w1) = Some (Fin 33, True) \<and>
             indicator (loading_dlgbox w2) = Some (Fin 67, True) \<and>
             indicator (loading_dlgbox w3) = Some (Fin 67, False) \<and>
             filter is_DispatchEvent (new_effects w w1) = [] \<and>
             filter is_DispatchEvent (new_effects w1 w2) = [] \<and>
             filter is_DispatchEvent (new_effects w2 w3) = [DispatchEvent None]) \<and>
         (let w1 = deliver onDocumentLoaded_onRendered (TextLayerRendered a) w;
              w2 = deliver onDocumentLoaded_onRendered (TextLayerRendered b) w1;
              w3 = deliver onDocumentLoaded_onRendered (TextLayerRendered c) w2
          in ConsoleLog (a - 1) 1 3 \<in> set (new_effects w w1) \<and>
             ConsoleLog (b - 1) 2 3 \<in> set (new_effects w1 w2) \<and>
             ConsoleLog (c - 1) 3 3 \<in> set (new_effects w2 w3) \<and>
             indicator (loading_dlgbox w1) = Some (Fin 33, True) \<and>
             indicator (loading_dlgbox w2) = Some (Fin 67, True) \<and>
             indicator (loading_dlgbox w3) = Some (Fin 67, False) \<and>
             filter is_DispatchEvent (new_effects w w1) = [] \<and>
             filter is_DispatchEvent (new_effects w1 w2) = [] \<and>
             filter is_DispatchEvent (new_effects w2 w3) =
               [DispatchEvent (Some (enableHighlights (average (page_containers w) 3)))])"
  using three_page_run [OF assms] three_page_run_ceiling [OF assms] by (rule conjI)

theorem three_page_example_witness:
  "pagesCount example_world = 3 \<and> rendered example_world = [] \<and> subscribed example_world \<and>
   fst (getAllRenderPromises example_world) = [] \<and>
   indicator (loading_dlgbox example_world) = Some (Fin 0, False) \<and>
   distinct [3 :: int, 1, 2] \<and>
   (let w1 = deliver run_onRendered (TextLayerRendered 3) example_world;
        w2 = deliver run_onRendered (TextLayerRendered 1) w1;
        w3 = deliver run_onRendered (TextLayerRendered 2) w2
    in ConsoleLog (3 - 1) 1 3 \<in> set (new_effects example_world w1) \<and>
       ConsoleLog (1 - 1) 2 3 \<in> set (new_effects w1 w2) \<and>
       ConsoleLog (2 - 1) 3 3 \<in> set (new_effects w2 w3) \<and>
       Math_round (times_100 (js_div 1 3)) = Fin 33 \<and>
       Math_round (times_100 (js_div 2 3)) = Fin 67 \<and>
       Math_round (times_100 (js_div 3 3)) = Fin 100 \<and>
       indicator (loading_dlgbox w1) = Some (Fin 33, True) \<and>
       indicator (loading_dlgbox w2) = Some (Fin 67, True) \<and>
       indicator (loading_dlgbox w3) = Some (Fin 67, False) \<and>
       filter is_DispatchEvent (new_effects example_world w1) = [] \<and>
       filter is_DispatchEvent (new_effects w1 w2) = [] \<and>
       filter is_DispatchEvent (new_effects w2 w3) = [DispatchEvent None]) \<and>
   (let w1 = deliver onDocumentLoaded_onRendered (TextLayerRendered 3) example_world;
        w2 = deliver onDocumentLoaded_onRendered (TextLayerRendered 1) w1;
        w3 = deliver onDocumentLoaded_onRendered (TextLayerRendered 2) w2
    in ConsoleLog (3 - 1) 1 3 \<in> set (new_effects example_world w1) \<and>
       ConsoleLog (1 - 1) 2 3 \<in> set (new_effects w1 w2) \<and>
       ConsoleLog (2 - 1) 3 3 \<in> set (new_effects w2 w3) \<and>
       indicator (loading_dlgbox w1) = Some (Fin 33, True) \<and>
       indicator (loading_dlgbox w2) = Some (Fin 67, True) \<and>
       indicator (loading_dlgbox w3) = Some (Fin 67, False) \<and>
       filter is_DispatchEvent (new_effects example_world w1) = [] \<and>
       filter is_DispatchEvent (new_effects w1 w2) = [] \<and>
       filter is_DispatchEvent (new_effects w2 w3) =
         [DispatchEvent (Some (enableHighlights (average (page_containers example_world) 3)))])"
proof -
  have h1: "pagesCount example_world = 3" and h2: "rendered example_world = []"
    and h3: "subscribed example_world"
    and h5: "indicator (loading_dlgbox example_world) = Some (Fin 0, False)"
    by (simp_all add: example_world_def indicator_def)
  have h6: "distinct [3 :: int, 1, 2]" by simp
  from h1 h2 h3 example_idle(1) h5 h6
    three_page_example [OF h1 h2 h3 example_idle(1) h5 h6]
  show ?thesis by blast
qed

text \<open>
  Claim C9 as stated fails: after the events for pages 3, 2 and 1 the meter holds 67, not
  100, and the dialog is hidden.
\<close>

theorem meter_never_shows_100:
  "indicator (loading_dlgbox
     (deliver_all run_onRendered
        [TextLayerRendered 3, TextLayerRendered 2, TextLayerRendered 1] example_world)) =
     Some (Fin 67, False) \<and>
   map_option fst (indicator (loading_dlgbox
     (deliver_all run_onRendered
        [TextLayerRendered 3, TextLayerRendered 2, TextLayerRendered 1] example_world))) \<noteq>
     Some (Fin 100)"
proof -
  have h1: "pagesCount example_world = 3" and h2: "rendered example_world = []"
    and h3: "subscribed example_world"
    and h5: "indicator (loading_dlgbox example_world) = Some (Fin 0, False)"
    by (simp_all add: example_world_def indicator_def)
  have h6: "distinct [3 :: int, 2, 1]" by simp
  from three_page_run [OF h1 h2 h3 example_idle(1) h5 h6]
  have "indicator (loading_dlgbox
     (deliver_all run_onRendered
        [TextLayerRendered 3, TextLayerRendered 2, TextLayerRendered 1] example_world)) =
     Some (Fin 67, False)"
    by (simp add: Let_def)
  then show ?thesis by simp
qed



end
